theory Spec2Isabelle
  imports Complex_Main
begin

section \<open>Python floats\<close>

text \<open>
  The gripper example computes with Python floats (IEEE-754 binary64, round to nearest,
  ties to even). A finite float is represented by the rational number it denotes; the
  two signed zeros are identified (they compare equal, and the programs only compare,
  add and subtract).
  \<open>round_double\<close> maps the exact result of an operation to the float the hardware
  stores: 53 significant bits in the normal range, multiples of \<open>2^-1074\<close> below
  \<open>2^-1022\<close>, infinity from \<open>2^1024\<close> on.
\<close>

datatype pyfloat = Finite rat | PosInf | NegInf | NaN

fun floor_log2_nat :: "nat \<Rightarrow> nat" where
  "floor_log2_nat n = (if n < 2 then 0 else Suc (floor_log2_nat (n div 2)))"

declare floor_log2_nat.simps [simp del]

definition floor_log2 :: "rat \<Rightarrow> int" where
  \<comment> \<open>for \<open>0 < x\<close>: the \<open>e\<close> with \<open>2^e \<le> x < 2^(e+1)\<close>\<close>
  "floor_log2 x =
     (if 1 \<le> x then int (floor_log2_nat (nat \<lfloor>x\<rfloor>))
      else (let k = floor_log2_nat (nat \<lfloor>1 / x\<rfloor>)
            in if 1 / x = 2 ^ k then - int k else - int k - 1))"

definition pow2 :: "int \<Rightarrow> rat" where
  "pow2 k = (if 0 \<le> k then 2 ^ nat k else 1 / 2 ^ nat (- k))"

definition round_half_even :: "rat \<Rightarrow> int" where
  "round_half_even x =
     (let f = \<lfloor>x\<rfloor>; r = x - of_int f
      in if r < 1 / 2 then f
         else if 1 / 2 < r then f + 1
         else if even f then f else f + 1)"

definition round_double :: "rat \<Rightarrow> pyfloat" where
  "round_double x =
     (if x = 0 then Finite 0
      else (let e = max (floor_log2 \<bar>x\<bar>) (- 1022);
                ulp = pow2 (e - 52);
                y = of_int (round_half_even (x / ulp)) * ulp
            in if 2 ^ 1024 \<le> \<bar>y\<bar> then (if 0 < x then PosInf else NegInf)
               else Finite y))"

text \<open>A decimal literal of the source text denotes the float nearest to it.\<close>

definition lit :: "rat \<Rightarrow> pyfloat" where
  "lit q = round_double q"

fun float_gt :: "pyfloat \<Rightarrow> pyfloat \<Rightarrow> bool" where
  "float_gt (Finite a) (Finite b) = (b < a)"
| "float_gt (Finite a) NegInf = True"
| "float_gt PosInf (Finite b) = True"
| "float_gt PosInf NegInf = True"
| "float_gt _ _ = False"

fun float_neg :: "pyfloat \<Rightarrow> pyfloat" where
  "float_neg (Finite a) = Finite (- a)"
| "float_neg PosInf = NegInf"
| "float_neg NegInf = PosInf"
| "float_neg NaN = NaN"

fun float_add :: "pyfloat \<Rightarrow> pyfloat \<Rightarrow> pyfloat" where
  "float_add (Finite a) (Finite b) = round_double (a + b)"
| "float_add NaN _ = NaN"
| "float_add _ NaN = NaN"
| "float_add PosInf NegInf = NaN"
| "float_add NegInf PosInf = NaN"
| "float_add PosInf _ = PosInf"
| "float_add _ PosInf = PosInf"
| "float_add NegInf _ = NegInf"
| "float_add _ NegInf = NegInf"

definition float_sub :: "pyfloat \<Rightarrow> pyfloat \<Rightarrow> pyfloat" where
  "float_sub a b = float_add a (float_neg b)"

text \<open>
  \<open>"{:0.2f}".format(v)\<close> prints the decimal with two fractional digits nearest to
  the exact value of \<open>v\<close>; \<open>hundredths\<close> is that decimal, in units of 0.01.
\<close>

definition hundredths :: "rat \<Rightarrow> int" where
  "hundredths v = round_half_even (v * 100)"

section \<open>The gripper example (02-gripper_grabPen.py)\<close>

text \<open>
  Modelled from the spec: the remote-procedure-call stubs and message types of the
  \<open>kortex_api\<close> package are not part of the sources. Following the spec's external
  interfaces, every call on the device command channel is a synchronous request that
  either answers or fails with a transport error, which the examples do not catch.
\<close>

datatype error = TransportError

datatype GripperMode = GRIPPER_POSITION | GRIPPER_SPEED

record Finger =
  finger_identifier :: nat
  finger_value :: pyfloat

record GripperCommand =
  mode :: GripperMode
  gripper_finger :: "Finger list"

record GripperRequest =
  request_mode :: GripperMode

record GripperMeasurement =
  finger :: "Finger list"

text \<open>
  The effects of the example are recorded in a trace of the calls it makes, oldest first.
  The device is any deterministic environment: its answer to a call is a function of the
  trace up to and including that call.
\<close>

datatype gripper_call =
    Call_SendGripperCommand GripperCommand
  | Call_GetMeasuredGripperMovement GripperRequest
  | Call_sleep nat

record gripper_base =
  SendGripperCommand_reply :: "gripper_call list \<Rightarrow> error + unit"
  GetMeasuredGripperMovement_reply :: "gripper_call list \<Rightarrow> error + GripperMeasurement"

definition SendGripperCommand ::
  "gripper_base \<Rightarrow> GripperCommand \<Rightarrow> gripper_call list \<Rightarrow> (error + unit) \<times> gripper_call list" where
  "SendGripperCommand base gripper_command tr =
     (let tr' = tr @ [Call_SendGripperCommand gripper_command]
      in (SendGripperCommand_reply base tr', tr'))"

definition GetMeasuredGripperMovement ::
  "gripper_base \<Rightarrow> GripperRequest \<Rightarrow> gripper_call list
     \<Rightarrow> (error + GripperMeasurement) \<times> gripper_call list" where
  "GetMeasuredGripperMovement base gripper_request tr =
     (let tr' = tr @ [Call_GetMeasuredGripperMovement gripper_request]
      in (GetMeasuredGripperMovement_reply base tr', tr'))"

text \<open>
  \<open>ExampleSendGripperCommands\<close> builds one command message with one finger, whose
  identifier stays 0, and overwrites its mode and its finger's value before each send.
\<close>

definition gripper_command_with :: "GripperMode \<Rightarrow> pyfloat \<Rightarrow> GripperCommand" where
  "gripper_command_with m v =
     \<lparr>mode = m, gripper_finger = [\<lparr>finger_identifier = 0, finger_value = v\<rparr>]\<rparr>"

text \<open>
  The first loop of \<open>ExampleSendGripperCommands\<close>:
  \<^verbatim>\<open>
    while position > 0.0:
        finger.value = position
        self.base.SendGripperCommand(gripper_command)
        position -= 0.2
        time.sleep(1)
  \<close>
  From an arbitrary float the loop need not end (a large \<open>position\<close>
  absorbs the decrement), so the result is an option and \<open>None\<close> means that the loop
  runs forever.
\<close>

partial_function (option) position_ramp ::
  "gripper_base \<Rightarrow> pyfloat \<Rightarrow> gripper_call list
     \<Rightarrow> ((error + unit) \<times> gripper_call list) option" where
  "position_ramp base position tr =
     (if float_gt position (lit 0) then
        (case SendGripperCommand base (gripper_command_with GRIPPER_POSITION position) tr of
           (Inl err, tr') \<Rightarrow> Some (Inl err, tr')
         | (Inr u, tr') \<Rightarrow>
             position_ramp base (float_sub position (lit (2 / 10))) (tr' @ [Call_sleep 1]))
      else Some (Inr (), tr))"

text \<open>
  The second loop:
  \<^verbatim>\<open>
    while True:
        gripper_measure = self.base.GetMeasuredGripperMovement(gripper_request)
        if len (gripper_measure.finger):
            if gripper_measure.finger[0].value > 0.86:
                break
        else:
            break
  \<close>
\<close>

partial_function (option) wait_for_position ::
  "gripper_base \<Rightarrow> GripperRequest \<Rightarrow> gripper_call list
     \<Rightarrow> ((error + unit) \<times> gripper_call list) option" where
  "wait_for_position base gripper_request tr =
     (case GetMeasuredGripperMovement base gripper_request tr of
        (Inl err, tr') \<Rightarrow> Some (Inl err, tr')
      | (Inr gripper_measure, tr') \<Rightarrow>
          (if finger gripper_measure \<noteq> [] then
             (if float_gt (finger_value (hd (finger gripper_measure))) (lit (86 / 100))
              then Some (Inr (), tr')
              else wait_for_position base gripper_request tr')
           else Some (Inr (), tr')))"

definition ExampleSendGripperCommands ::
  "gripper_base \<Rightarrow> gripper_call list \<Rightarrow> ((error + unit) \<times> gripper_call list) option" where
  "ExampleSendGripperCommands base tr =
     (case position_ramp base (lit 1) tr of
        None \<Rightarrow> None
      | Some (Inl err, tr1) \<Rightarrow> Some (Inl err, tr1)
      | Some (Inr u, tr1) \<Rightarrow>
          (case SendGripperCommand base
                  (gripper_command_with GRIPPER_SPEED (float_neg (lit (1 / 10)))) tr1 of
             (Inl err, tr2) \<Rightarrow> Some (Inl err, tr2)
           | (Inr u, tr2) \<Rightarrow>
               wait_for_position base \<lparr>request_mode = GRIPPER_POSITION\<rparr> tr2))"

text \<open>What the example observes and what it commands, read off the trace.\<close>

definition poll_reply ::
  "gripper_base \<Rightarrow> GripperRequest \<Rightarrow> gripper_call list \<Rightarrow> nat \<Rightarrow> error + GripperMeasurement" where
  \<comment> \<open>the answer to poll number \<open>n\<close> (from 0) of the second loop entered with trace \<open>tr\<close>\<close>
  "poll_reply base gripper_request tr n =
     GetMeasuredGripperMovement_reply base
       (tr @ replicate (Suc n) (Call_GetMeasuredGripperMovement gripper_request))"

fun commanded_positions :: "gripper_call list \<Rightarrow> pyfloat list" where
  "commanded_positions [] = []"
| "commanded_positions (Call_SendGripperCommand c # cs) =
     (if mode c = GRIPPER_POSITION then map finger_value (gripper_finger c) else [])
       @ commanded_positions cs"
| "commanded_positions (c # cs) = commanded_positions cs"

fun displayed :: "pyfloat \<Rightarrow> int option" where
  "displayed (Finite v) = Some (hundredths v)"
| "displayed f = None"

text \<open>
  Devices for concrete runs. A scripted device accepts every command, answers poll
  number \<open>n\<close> with the \<open>n\<close>-th measurement of its script and, once the script is
  exhausted, reports no finger.
\<close>

fun is_poll :: "gripper_call \<Rightarrow> bool" where
  "is_poll (Call_GetMeasuredGripperMovement r) = True"
| "is_poll c = False"

definition scripted_base :: "GripperMeasurement list \<Rightarrow> gripper_base" where
  "scripted_base ms =
     \<lparr>SendGripperCommand_reply = (\<lambda>tr. Inr ()),
      GetMeasuredGripperMovement_reply =
        (\<lambda>tr. let n = length (filter is_poll tr) - 1
              in if n < length ms then Inr (ms ! n) else Inr \<lparr>finger = []\<rparr>)\<rparr>"

definition measured :: "pyfloat \<Rightarrow> GripperMeasurement" where
  "measured v = \<lparr>finger = [\<lparr>finger_identifier = 0, finger_value = v\<rparr>]\<rparr>"

definition steady_base :: "pyfloat \<Rightarrow> gripper_base" where
  \<comment> \<open>a gripper that does not move: every poll measures \<open>v\<close>\<close>
  "steady_base v =
     \<lparr>SendGripperCommand_reply = (\<lambda>tr. Inr ()),
      GetMeasuredGripperMovement_reply = (\<lambda>tr. Inr (measured v))\<rparr>"

definition closing_stream :: "GripperMeasurement list" where
  "closing_stream =
     [measured (lit (5 / 10)), measured (lit (7 / 10)),
      measured (lit (86 / 100)), measured (lit (90 / 100))]"

text \<open>
  The floats 1.0, 0.8, 0.6000000000000001, 0.4000000000000001, 0.20000000000000007 and
  5.551115123125783e-17, which the ramp from 1.0 is shown to command, and the trace of
  a ramp that commands given positions.
\<close>

definition ramp_positions :: "pyfloat list" where
  "ramp_positions =
     [Finite 1,
      Finite (3602879701896397 / 4503599627370496),
      Finite (1351079888211149 / 2251799813685248),
      Finite (7205759403792795 / 18014398509481984),
      Finite (1801439850948199 / 9007199254740992),
      Finite (1 / 18014398509481984)]"

definition ramp_trace :: "pyfloat list \<Rightarrow> gripper_call list" where
  "ramp_trace ps =
     concat (map (\<lambda>p. [Call_SendGripperCommand (gripper_command_with GRIPPER_POSITION p),
                        Call_sleep 1]) ps)"

definition keeps_polling :: "error + GripperMeasurement \<Rightarrow> bool" where
  \<comment> \<open>the answers after which the second loop polls again\<close>
  "keeps_polling r =
     (case r of
        Inl err \<Rightarrow> False
      | Inr m \<Rightarrow> finger m \<noteq> [] \<and> \<not> float_gt (finger_value (hd (finger m))) (lit (86 / 100)))"

section \<open>The drawing example (tools/drawing.py)\<close>

text \<open>
  Modelled from the spec: the action-event enumeration and the message types of
  \<open>kortex_api\<close> are not part of the sources. The spec gives the enumeration the
  variants started, end, abort and other intermediate states; the source names
  \<open>ACTION_END\<close> and \<open>ACTION_ABORT\<close>. Handles are opaque tokens.
\<close>

datatype ActionEvent = ACTION_START | ACTION_END | ACTION_ABORT | ACTION_OTHER nat

record ActionNotification =
  action_event :: ActionEvent

datatype ServoingMode = SINGLE_LEVEL_SERVOING

datatype ActionType = REACH_JOINT_ANGLES

record StoredAction =
  stored_name :: string
  stored_handle :: nat

record Feedback =
  tool_pose_x :: pyfloat
  tool_pose_y :: pyfloat
  tool_pose_z :: pyfloat
  tool_pose_theta_x :: pyfloat
  tool_pose_theta_y :: pyfloat
  tool_pose_theta_z :: pyfloat

record CartesianPose =
  cp_x :: pyfloat
  cp_y :: pyfloat
  cp_z :: pyfloat
  cp_theta_x :: pyfloat
  cp_theta_y :: pyfloat
  cp_theta_z :: pyfloat

record Action =
  action_name :: string
  application_data :: string
  target_pose :: CartesianPose

text \<open>
  The trace of the drawing example: the calls on the device, the creation of the
  \<open>threading.Event\<close> and the wait on it, which is recorded with its timeout and with
  what it returned. The output printed by the example is not part of the trace.
\<close>

datatype call =
    Call_SetServoingMode ServoingMode
  | Call_ReadAllActions ActionType
  | Call_Event
  | Call_OnNotificationActionTopic
  | Call_ExecuteActionFromReference nat
  | Call_ExecuteAction Action
  | Call_wait nat bool
  | Call_Unsubscribe nat
  | Call_RefreshFeedback

text \<open>
  The device answers each call as a function of the trace up to and including the call.
  \<open>notifications\<close> lists, for the trace at which the example starts to wait, the
  notifications that the device delivers to the subscribed callback from the
  subscription until the wait returns, that is until the event is set or the timeout
  has elapsed.
\<close>

record device =
  SetServoingMode_reply :: "call list \<Rightarrow> error + unit"
  ReadAllActions_reply :: "call list \<Rightarrow> error + StoredAction list"
  OnNotificationActionTopic_reply :: "call list \<Rightarrow> error + nat"
  ExecuteActionFromReference_reply :: "call list \<Rightarrow> error + unit"
  ExecuteAction_reply :: "call list \<Rightarrow> error + unit"
  Unsubscribe_reply :: "call list \<Rightarrow> error + unit"
  RefreshFeedback_reply :: "call list \<Rightarrow> error + Feedback"
  notifications :: "call list \<Rightarrow> ActionNotification list"

type_synonym 'a io = "call list \<Rightarrow> (error + 'a) \<times> call list"

definition io_return :: "'a \<Rightarrow> 'a io" where
  "io_return v tr = (Inr v, tr)"

definition io_bind :: "'a io \<Rightarrow> ('a \<Rightarrow> 'b io) \<Rightarrow> 'b io" where
  \<comment> \<open>sequencing; an error raised by the first part ends the run\<close>
  "io_bind m f tr = (case m tr of (Inl err, tr') \<Rightarrow> (Inl err, tr') | (Inr v, tr') \<Rightarrow> f v tr')"

definition rpc :: "(call list \<Rightarrow> error + 'a) \<Rightarrow> call \<Rightarrow> 'a io" where
  "rpc reply c tr = (let tr' = tr @ [c] in (reply tr', tr'))"

definition SetServoingMode :: "device \<Rightarrow> ServoingMode \<Rightarrow> unit io" where
  "SetServoingMode base m = rpc (SetServoingMode_reply base) (Call_SetServoingMode m)"

definition ReadAllActions :: "device \<Rightarrow> ActionType \<Rightarrow> StoredAction list io" where
  "ReadAllActions base action_type = rpc (ReadAllActions_reply base) (Call_ReadAllActions action_type)"

definition OnNotificationActionTopic :: "device \<Rightarrow> nat io" where
  "OnNotificationActionTopic base =
     rpc (OnNotificationActionTopic_reply base) Call_OnNotificationActionTopic"

definition ExecuteActionFromReference :: "device \<Rightarrow> nat \<Rightarrow> unit io" where
  "ExecuteActionFromReference base action_handle =
     rpc (ExecuteActionFromReference_reply base) (Call_ExecuteActionFromReference action_handle)"

definition ExecuteAction :: "device \<Rightarrow> Action \<Rightarrow> unit io" where
  "ExecuteAction base action = rpc (ExecuteAction_reply base) (Call_ExecuteAction action)"

definition Unsubscribe :: "device \<Rightarrow> nat \<Rightarrow> unit io" where
  "Unsubscribe base notification_handle =
     rpc (Unsubscribe_reply base) (Call_Unsubscribe notification_handle)"

definition RefreshFeedback :: "device \<Rightarrow> Feedback io" where
  "RefreshFeedback base_cyclic = rpc (RefreshFeedback_reply base_cyclic) Call_RefreshFeedback"

definition TIMEOUT_DURATION :: nat where
  "TIMEOUT_DURATION = 20"

text \<open>
  \<open>check_for_end_or_abort(e)\<close> returns the callback; the callback, given a
  notification, sets the event \<open>e\<close> on END and on ABORT and leaves it as it is
  otherwise. The event is its flag.
\<close>

definition check_for_end_or_abort :: "bool \<Rightarrow> ActionNotification \<Rightarrow> bool" where
  "check_for_end_or_abort e notification =
     (if action_event notification = ACTION_END \<or> action_event notification = ACTION_ABORT
      then True else e)"

definition Event :: "bool io" where
  \<comment> \<open>\<open>threading.Event()\<close>: a new event, not set\<close>
  "Event tr = (Inr False, tr @ [Call_Event])"

definition wait :: "device \<Rightarrow> bool \<Rightarrow> nat \<Rightarrow> bool io" where
  \<comment> \<open>\<open>e.wait(timeout)\<close> with the callback of \<open>check_for_end_or_abort(e)\<close> subscribed\<close>
  "wait base e timeout tr =
     (let finished = foldl check_for_end_or_abort e (notifications base tr)
      in (Inr finished, tr @ [Call_wait timeout finished]))"

definition home_handle :: "StoredAction list \<Rightarrow> nat option" where
  \<comment> \<open>the loop over \<open>action_list\<close>: the handle of the last action named Home\<close>
  "home_handle action_list =
     foldl (\<lambda>action_handle action.
              if stored_name action = ''Home'' then Some (stored_handle action)
              else action_handle)
       None action_list"

definition example_move_to_home_position :: "device \<Rightarrow> bool io" where
  "example_move_to_home_position base =
     io_bind (SetServoingMode base SINGLE_LEVEL_SERVOING) (\<lambda>u.
     io_bind (ReadAllActions base REACH_JOINT_ANGLES) (\<lambda>action_list.
     case home_handle action_list of
       None \<Rightarrow> io_return False
     | Some action_handle \<Rightarrow>
         io_bind Event (\<lambda>e.
         io_bind (OnNotificationActionTopic base) (\<lambda>notification_handle.
         io_bind (ExecuteActionFromReference base action_handle) (\<lambda>u.
         io_bind (wait base e TIMEOUT_DURATION) (\<lambda>finished.
         io_bind (Unsubscribe base notification_handle) (\<lambda>u.
         io_return finished)))))))"

definition cartesian_action :: "pyfloat \<Rightarrow> pyfloat \<Rightarrow> pyfloat \<Rightarrow> Feedback \<Rightarrow> Action" where
  \<comment> \<open>the action that \<open>example_cartesian_action_movement\<close> fills in\<close>
  "cartesian_action pose_x pose_y pose_z feedback =
     \<lparr>action_name = ''Example Cartesian action movement'',
      application_data = [],
      target_pose =
        \<lparr>cp_x = pose_x, cp_y = pose_y, cp_z = pose_z,
         cp_theta_x = tool_pose_theta_x feedback,
         cp_theta_y = tool_pose_theta_y feedback,
         cp_theta_z = tool_pose_theta_z feedback\<rparr>\<rparr>"

definition example_cartesian_action_movement ::
  "device \<Rightarrow> device \<Rightarrow> pyfloat \<Rightarrow> pyfloat \<Rightarrow> pyfloat \<Rightarrow> bool io" where
  "example_cartesian_action_movement base base_cyclic pose_x pose_y pose_z =
     io_bind (RefreshFeedback base_cyclic) (\<lambda>feedback.
     io_bind Event (\<lambda>e.
     io_bind (OnNotificationActionTopic base) (\<lambda>notification_handle.
     io_bind (ExecuteAction base (cartesian_action pose_x pose_y pose_z feedback)) (\<lambda>u.
     io_bind (wait base e TIMEOUT_DURATION) (\<lambda>finished.
     io_bind (Unsubscribe base notification_handle) (\<lambda>u.
     io_return finished))))))"

text \<open>The loop of \<open>main\<close> over the four points, with \<open>success &= ...\<close>.\<close>

fun draw_points ::
  "device \<Rightarrow> device \<Rightarrow> pyfloat \<Rightarrow> (pyfloat \<times> pyfloat) list \<Rightarrow> bool \<Rightarrow> bool io" where
  "draw_points base base_cyclic pose_z [] success = io_return success"
| "draw_points base base_cyclic pose_z ((pose_x, pose_y) # points) success =
     io_bind (example_cartesian_action_movement base base_cyclic pose_x pose_y pose_z)
       (\<lambda>r. draw_points base base_cyclic pose_z points (success \<and> r))"

definition drawing_default_pose :: "Feedback \<Rightarrow> pyfloat \<times> pyfloat \<times> pyfloat" where
  "drawing_default_pose feedback =
     (float_add (tool_pose_x feedback) (lit (2 / 10)),
      float_add (tool_pose_y feedback) (lit (1 / 10)),
      float_sub (tool_pose_z feedback) (lit (37 / 100)))"

definition rectangle_points :: "Feedback \<Rightarrow> (pyfloat \<times> pyfloat) list" where
  "rectangle_points feedback =
     [(float_add (tool_pose_x feedback) (lit (5 / 100)), tool_pose_y feedback),
      (float_add (tool_pose_x feedback) (lit (5 / 100)),
       float_add (tool_pose_y feedback) (lit (5 / 100))),
      (float_sub (tool_pose_x feedback) (lit (5 / 100)),
       float_add (tool_pose_y feedback) (lit (5 / 100))),
      (float_sub (tool_pose_x feedback) (lit (5 / 100)),
       float_sub (tool_pose_y feedback) (lit (5 / 100)))]"

text \<open>
  \<open>main\<close> from the comment \<open>Example core\<close> on, with both clients built on the router of
  the connection; the result is the exit code.
\<close>

definition main :: "device \<Rightarrow> int io" where
  "main router =
     (let base = router; base_cyclic = router in
      io_bind (RefreshFeedback base_cyclic) (\<lambda>feedback.
      io_bind (example_move_to_home_position base) (\<lambda>r0.
      io_bind (RefreshFeedback base_cyclic) (\<lambda>feedback.
      case drawing_default_pose feedback of (pose_x, pose_y, pose_z) \<Rightarrow>
      io_bind (example_cartesian_action_movement base base_cyclic pose_x pose_y pose_z) (\<lambda>r1.
      io_bind (RefreshFeedback base_cyclic) (\<lambda>feedback.
      io_bind (draw_points base base_cyclic (tool_pose_z feedback) (rectangle_points feedback)
                 ((True \<and> r0) \<and> r1)) (\<lambda>success.
      io_return (if success then 0 else 1))))))))"

text \<open>Reading a trace.\<close>

fun is_dispatch :: "call \<Rightarrow> bool" where
  "is_dispatch (Call_ExecuteActionFromReference h) = True"
| "is_dispatch (Call_ExecuteAction a) = True"
| "is_dispatch c = False"

fun is_ExecuteAction :: "call \<Rightarrow> bool" where
  "is_ExecuteAction (Call_ExecuteAction a) = True"
| "is_ExecuteAction c = False"

fun is_Unsubscribe :: "call \<Rightarrow> bool" where
  "is_Unsubscribe (Call_Unsubscribe h) = True"
| "is_Unsubscribe c = False"

fun wait_results :: "call list \<Rightarrow> bool list" where
  "wait_results [] = []"
| "wait_results (Call_wait t b # cs) = b # wait_results cs"
| "wait_results (c # cs) = wait_results cs"

definition terminal :: "ActionNotification \<Rightarrow> bool" where
  "terminal n \<longleftrightarrow> action_event n = ACTION_END \<or> action_event n = ACTION_ABORT"

definition no_transport_error :: "device \<Rightarrow> bool" where
  \<comment> \<open>no call on the device fails\<close>
  "no_transport_error dev \<longleftrightarrow>
     (\<forall>t. SetServoingMode_reply dev t = Inr ()) \<and>
     (\<forall>t. \<exists>action_list. ReadAllActions_reply dev t = Inr action_list) \<and>
     (\<forall>t. \<exists>h. OnNotificationActionTopic_reply dev t = Inr h) \<and>
     (\<forall>t. ExecuteActionFromReference_reply dev t = Inr ()) \<and>
     (\<forall>t. ExecuteAction_reply dev t = Inr ()) \<and>
     (\<forall>t. Unsubscribe_reply dev t = Inr ()) \<and>
     (\<forall>t. \<exists>feedback. RefreshFeedback_reply dev t = Inr feedback)"

text \<open>
  Scripted devices for concrete runs. All of them store one action named Home, hand out
  the notification handle 7 and report a tool pose of zeros. \<open>stalling_device\<close>
  completes the move to the home position and no move after it; \<open>faulty_device\<close>
  fails to take an inline action.
\<close>

definition zero_feedback :: Feedback where
  "zero_feedback =
     \<lparr>tool_pose_x = Finite 0, tool_pose_y = Finite 0, tool_pose_z = Finite 0,
      tool_pose_theta_x = Finite 90, tool_pose_theta_y = Finite 0, tool_pose_theta_z = Finite 45\<rparr>"

definition scripted_device ::
  "StoredAction list \<Rightarrow> (call list \<Rightarrow> ActionNotification list) \<Rightarrow> device" where
  "scripted_device action_list ns =
     \<lparr>SetServoingMode_reply = (\<lambda>tr. Inr ()),
      ReadAllActions_reply = (\<lambda>tr. Inr action_list),
      OnNotificationActionTopic_reply = (\<lambda>tr. Inr 7),
      ExecuteActionFromReference_reply = (\<lambda>tr. Inr ()),
      ExecuteAction_reply = (\<lambda>tr. Inr ()),
      Unsubscribe_reply = (\<lambda>tr. Inr ()),
      RefreshFeedback_reply = (\<lambda>tr. Inr zero_feedback),
      notifications = ns\<rparr>"

definition home_action :: StoredAction where
  "home_action = \<lparr>stored_name = ''Home'', stored_handle = 2\<rparr>"

definition completing_device :: device where
  "completing_device =
     scripted_device [home_action]
       (\<lambda>tr. [\<lparr>action_event = ACTION_START\<rparr>, \<lparr>action_event = ACTION_END\<rparr>])"

definition stalling_device :: device where
  "stalling_device =
     scripted_device [home_action]
       (\<lambda>tr. if list_ex is_ExecuteAction tr then [\<lparr>action_event = ACTION_START\<rparr>]
             else [\<lparr>action_event = ACTION_START\<rparr>, \<lparr>action_event = ACTION_END\<rparr>])"

definition faulty_device :: device where
  "faulty_device =
     (scripted_device [home_action] (\<lambda>tr. []))
       \<lparr>ExecuteAction_reply := (\<lambda>tr. Inl TransportError)\<rparr>"

definition homeless_device :: device where
  "homeless_device =
     scripted_device [\<lparr>stored_name = ''Retract'', stored_handle = 1\<rparr>]
       (\<lambda>tr. [\<lparr>action_event = ACTION_END\<rparr>])"

text \<open>
  The calls with which a dispatch begins, up to and including the call that issues the
  action: the trace at which the dispatch starts to wait.
\<close>

definition cartesian_calls :: "pyfloat \<Rightarrow> pyfloat \<Rightarrow> pyfloat \<Rightarrow> Feedback \<Rightarrow> call list" where
  "cartesian_calls pose_x pose_y pose_z feedback =
     [Call_RefreshFeedback, Call_Event, Call_OnNotificationActionTopic,
      Call_ExecuteAction (cartesian_action pose_x pose_y pose_z feedback)]"

definition home_calls :: "nat \<Rightarrow> call list" where
  "home_calls action_handle =
     [Call_SetServoingMode SINGLE_LEVEL_SERVOING, Call_ReadAllActions REACH_JOINT_ANGLES,
      Call_Event, Call_OnNotificationActionTopic,
      Call_ExecuteActionFromReference action_handle]"

section \<open>Lemmas about the gripper example\<close>

subsection \<open>Float arithmetic of the ramp\<close>

lemma floor_numeral_div: "\<lfloor>(numeral a :: rat) / numeral b\<rfloor> = numeral a div numeral b"
  using floor_divide_of_int_eq [of "numeral a" "numeral b", where ?'a = rat] by simp

lemma floor_neg_numeral_div: "\<lfloor>- (numeral a :: rat) / numeral b\<rfloor> = - numeral a div numeral b"
  using floor_divide_of_int_eq [of "- numeral a" "numeral b", where ?'a = rat] by simp

lemmas float_eval = lit_def round_double_def floor_log2_def floor_log2_nat.simps pow2_def
  round_half_even_def Let_def float_sub_def floor_numeral_div floor_neg_numeral_div

lemma lit_0: "lit 0 = Finite 0"
  by (simp add: float_eval)

lemma lit_1: "lit 1 = Finite 1"
  by (simp add: float_eval)

lemma lit_02: "lit (2 / 10) = Finite (3602879701896397 / 18014398509481984)"
  by (simp add: float_eval)

lemma lit_086: "lit (86 / 100) = Finite (7746191359077253 / 9007199254740992)"
  by (simp add: float_eval)

lemma lit_05: "lit (5 / 10) = Finite (1 / 2)"
  by (simp add: float_eval)

lemma lit_07: "lit (7 / 10) = Finite (3152519739159347 / 4503599627370496)"
  by (simp add: float_eval)

lemma lit_09: "lit (90 / 100) = Finite (8106479329266893 / 9007199254740992)"
  by (simp add: float_eval)

lemma ramp_sub_1:
  "float_sub (Finite 1) (lit (2 / 10)) = Finite (3602879701896397 / 4503599627370496)"
  by (simp add: float_eval)

lemma ramp_sub_2:
  "float_sub (Finite (3602879701896397 / 4503599627370496)) (lit (2 / 10)) =
   Finite (1351079888211149 / 2251799813685248)"
  by (simp add: float_eval)

lemma ramp_sub_3:
  "float_sub (Finite (1351079888211149 / 2251799813685248)) (lit (2 / 10)) =
   Finite (7205759403792795 / 18014398509481984)"
  by (simp add: float_eval)

lemma ramp_sub_4:
  "float_sub (Finite (7205759403792795 / 18014398509481984)) (lit (2 / 10)) =
   Finite (1801439850948199 / 9007199254740992)"
  by (simp add: float_eval)

lemma ramp_sub_5:
  "float_sub (Finite (1801439850948199 / 9007199254740992)) (lit (2 / 10)) =
   Finite (1 / 18014398509481984)"
  by (simp add: float_eval)

lemma ramp_sub_6:
  "float_sub (Finite (1 / 18014398509481984)) (lit (2 / 10)) =
   Finite (- 900719925474099 / 4503599627370496)"
  by (simp add: float_eval)

lemmas lits = lit_0 lit_1 lit_02 lit_086 lit_05 lit_07 lit_09
  lit_02 [simplified] lit_086 [simplified] lit_05 [simplified] lit_09 [simplified]

lemmas ramp_sub =
  ramp_sub_1 [unfolded lit_02] ramp_sub_2 [unfolded lit_02] ramp_sub_3 [unfolded lit_02]
  ramp_sub_4 [unfolded lit_02] ramp_sub_5 [unfolded lit_02] ramp_sub_6 [unfolded lit_02]

subsection \<open>The position ramp\<close>

lemma position_ramp_send:
  assumes "float_gt p (lit 0)"
    and "SendGripperCommand_reply base
           (tr @ [Call_SendGripperCommand (gripper_command_with GRIPPER_POSITION p)]) = Inr ()"
  shows "position_ramp base p tr =
         position_ramp base (float_sub p (lit (2 / 10)))
           (tr @ ramp_trace [p])"
  using assms
  by (subst position_ramp.simps) (simp add: SendGripperCommand_def ramp_trace_def)

lemma position_ramp_exit:
  assumes "\<not> float_gt p (lit 0)"
  shows "position_ramp base p tr = Some (Inr (), tr)"
  using assms by (subst position_ramp.simps) simp

lemma position_ramp_from_1:
  assumes "\<And>t. SendGripperCommand_reply base t = Inr ()"
  shows "position_ramp base (lit 1) tr = Some (Inr (), tr @ ramp_trace ramp_positions)"
proof -
  have step: "position_ramp base p t = position_ramp base (float_sub p (lit (2 / 10))) (t @ ramp_trace [p])"
    if "float_gt p (lit 0)" for p t
    using that assms by (rule position_ramp_send)
  have "position_ramp base (lit 1) tr = position_ramp base (Finite 1) tr"
    by (simp add: lits)
  also have "\<dots> = position_ramp base (Finite (3602879701896397 / 4503599627370496))
      (tr @ ramp_trace (take 1 ramp_positions))"
    by (subst step) (simp_all add: lits ramp_sub ramp_positions_def)
  also have "\<dots> = position_ramp base (Finite (1351079888211149 / 2251799813685248))
      (tr @ ramp_trace (take 2 ramp_positions))"
    by (subst step) (simp_all add: lits ramp_sub ramp_positions_def ramp_trace_def)
  also have "\<dots> = position_ramp base (Finite (7205759403792795 / 18014398509481984))
      (tr @ ramp_trace (take 3 ramp_positions))"
    by (subst step) (simp_all add: lits ramp_sub ramp_positions_def ramp_trace_def)
  also have "\<dots> = position_ramp base (Finite (1801439850948199 / 9007199254740992))
      (tr @ ramp_trace (take 4 ramp_positions))"
    by (subst step) (simp_all add: lits ramp_sub ramp_positions_def ramp_trace_def)
  also have "\<dots> = position_ramp base (Finite (1 / 18014398509481984))
      (tr @ ramp_trace (take 5 ramp_positions))"
    by (subst step) (simp_all add: lits ramp_sub ramp_positions_def ramp_trace_def)
  also have "\<dots> = position_ramp base (Finite (- 900719925474099 / 4503599627370496))
      (tr @ ramp_trace ramp_positions)"
    by (subst step) (simp_all add: lits ramp_sub ramp_positions_def ramp_trace_def)
  also have "\<dots> = Some (Inr (), tr @ ramp_trace ramp_positions)"
    by (rule position_ramp_exit) (simp add: lits)
  finally show ?thesis .
qed

lemma commanded_positions_ramp_trace: "commanded_positions (ramp_trace ps) = ps"
  by (induction ps) (simp_all add: ramp_trace_def gripper_command_with_def)

lemma displayed_ramp_positions:
  "map displayed ramp_positions = [Some 100, Some 80, Some 60, Some 40, Some 20, Some 0]"
  by (simp add: ramp_positions_def hundredths_def round_half_even_def Let_def
      floor_numeral_div)

subsection \<open>The polling loop\<close>

lemma poll_reply_0:
  "poll_reply base req tr 0 =
     GetMeasuredGripperMovement_reply base (tr @ [Call_GetMeasuredGripperMovement req])"
  by (simp add: poll_reply_def)

lemma poll_reply_Suc:
  "poll_reply base req tr (Suc n) = poll_reply base req (tr @ [Call_GetMeasuredGripperMovement req]) n"
  by (simp add: poll_reply_def replicate_append_same)

lemma wait_for_position_continue:
  assumes "keeps_polling (poll_reply base req tr 0)"
  shows "wait_for_position base req tr =
         wait_for_position base req (tr @ [Call_GetMeasuredGripperMovement req])"
  using assms
  by (subst wait_for_position.simps)
     (simp add: keeps_polling_def poll_reply_0 GetMeasuredGripperMovement_def split: sum.splits)

lemma wait_for_position_stop:
  assumes "\<not> keeps_polling (poll_reply base req tr 0)"
  shows "wait_for_position base req tr =
         Some (case poll_reply base req tr 0 of Inl err \<Rightarrow> Inl err | Inr m \<Rightarrow> Inr (),
               tr @ [Call_GetMeasuredGripperMovement req])"
  using assms
  by (subst wait_for_position.simps)
     (auto simp add: keeps_polling_def poll_reply_0 GetMeasuredGripperMovement_def split: sum.splits)

lemma wait_for_position_skip:
  "(\<And>k. k < n \<Longrightarrow> keeps_polling (poll_reply base req tr k)) \<Longrightarrow>
   wait_for_position base req tr =
   wait_for_position base req (tr @ replicate n (Call_GetMeasuredGripperMovement req))"
proof (induction n arbitrary: tr)
  case 0
  show ?case by simp
next
  case (Suc n)
  let ?c = "Call_GetMeasuredGripperMovement req"
  have first: "keeps_polling (poll_reply base req tr 0)"
    using Suc.prems [of 0] by simp
  have rest: "\<And>k. k < n \<Longrightarrow> keeps_polling (poll_reply base req (tr @ [?c]) k)"
    using Suc.prems by (simp add: poll_reply_Suc [symmetric])
  have "wait_for_position base req tr = wait_for_position base req (tr @ [?c])"
    using first by (rule wait_for_position_continue)
  also have "\<dots> = wait_for_position base req ((tr @ [?c]) @ replicate n ?c)"
    using rest by (rule Suc.IH)
  finally show ?case by (simp add: replicate_append_same)
qed

lemma wait_for_position_first_stop:
  assumes "\<And>k. k < n \<Longrightarrow> keeps_polling (poll_reply base req tr k)"
    and "\<not> keeps_polling (poll_reply base req tr n)"
  shows "wait_for_position base req tr =
         Some (case poll_reply base req tr n of Inl err \<Rightarrow> Inl err | Inr m \<Rightarrow> Inr (),
               tr @ replicate (Suc n) (Call_GetMeasuredGripperMovement req))"
proof -
  let ?c = "Call_GetMeasuredGripperMovement req"
  have shift: "poll_reply base req (tr @ replicate n ?c) 0 = poll_reply base req tr n"
    by (simp add: poll_reply_def replicate_append_same)
  have "wait_for_position base req tr = wait_for_position base req (tr @ replicate n ?c)"
    using assms(1) by (rule wait_for_position_skip)
  also have "\<dots> = Some (case poll_reply base req (tr @ replicate n ?c) 0 of
                          Inl err \<Rightarrow> Inl err | Inr m \<Rightarrow> Inr (),
                        (tr @ replicate n ?c) @ [?c])"
    using assms(2) by (intro wait_for_position_stop) (simp add: shift)
  finally show ?thesis by (simp add: shift replicate_append_same)
qed

lemma wait_for_position_Some_stops:
  assumes "wait_for_position base req tr = Some y"
  shows "\<exists>n. \<not> keeps_polling (poll_reply base req tr n)"
proof (rule wait_for_position.raw_induct
    [where P = "\<lambda>base req tr y. \<exists>n. \<not> keeps_polling (poll_reply base req tr n)", OF _ assms])
  fix f base req tr y
  assume IH: "\<And>base req tr y. f base req tr = Some y \<Longrightarrow>
                \<exists>n. \<not> keeps_polling (poll_reply base req tr n)"
    and body: "(case GetMeasuredGripperMovement base req tr of
        (Inl err, tr') \<Rightarrow> Some (Inl err, tr')
      | (Inr gripper_measure, tr') \<Rightarrow>
          (if finger gripper_measure \<noteq> [] then
             (if float_gt (finger_value (hd (finger gripper_measure))) (lit (86 / 100))
              then Some (Inr (), tr')
              else f base req tr')
           else Some (Inr (), tr'))) = Some y"
  show "\<exists>n. \<not> keeps_polling (poll_reply base req tr n)"
  proof (cases "keeps_polling (poll_reply base req tr 0)")
    case False
    then show ?thesis by blast
  next
    case True
    then have "f base req (tr @ [Call_GetMeasuredGripperMovement req]) = Some y"
      using body
      by (auto simp add: keeps_polling_def poll_reply_0 GetMeasuredGripperMovement_def split: sum.splits)
    then obtain n where
      "\<not> keeps_polling (poll_reply base req (tr @ [Call_GetMeasuredGripperMovement req]) n)"
      using IH by blast
    then have "\<not> keeps_polling (poll_reply base req tr (Suc n))"
      by (simp add: poll_reply_Suc)
    then show ?thesis by blast
  qed
qed

lemma wait_for_position_terminates_iff:
  "wait_for_position base req tr \<noteq> None \<longleftrightarrow> (\<exists>n. \<not> keeps_polling (poll_reply base req tr n))"
proof
  assume "wait_for_position base req tr \<noteq> None"
  then show "\<exists>n. \<not> keeps_polling (poll_reply base req tr n)"
    using wait_for_position_Some_stops by blast
next
  assume "\<exists>n. \<not> keeps_polling (poll_reply base req tr n)"
  then obtain n where n: "\<not> keeps_polling (poll_reply base req tr n)"
    and least: "\<And>k. k < n \<Longrightarrow> keeps_polling (poll_reply base req tr k)"
    using exists_least_iff [of "\<lambda>n. \<not> keeps_polling (poll_reply base req tr n)"] by blast
  show "wait_for_position base req tr \<noteq> None"
    using wait_for_position_first_stop [OF least n] by simp
qed

lemma keeps_polling_Inr:
  "keeps_polling (Inr m) \<longleftrightarrow>
   finger m \<noteq> [] \<and> \<not> float_gt (finger_value (hd (finger m))) (lit (86 / 100))"
  by (simp add: keeps_polling_def)

lemma poll_reply_scripted:
  "poll_reply (scripted_base ms) req [] n =
   (if n < length ms then Inr (ms ! n) else Inr \<lparr>finger = []\<rparr>)"
  by (simp add: poll_reply_def scripted_base_def)

lemma closing_stream_polls:
  "poll_reply (scripted_base closing_stream) req [] 0 = Inr (measured (Finite (1 / 2)))"
  "poll_reply (scripted_base closing_stream) req [] 1 =
     Inr (measured (Finite (3152519739159347 / 4503599627370496)))"
  "poll_reply (scripted_base closing_stream) req [] 2 =
     Inr (measured (Finite (7746191359077253 / 9007199254740992)))"
  "poll_reply (scripted_base closing_stream) req [] 3 =
     Inr (measured (Finite (8106479329266893 / 9007199254740992)))"
  "poll_reply (scripted_base closing_stream) req [] 4 = Inr \<lparr>finger = []\<rparr>"
  by (simp_all add: poll_reply_scripted closing_stream_def lits)

section \<open>Lemmas about the drawing example\<close>

subsection \<open>The dispatch functions\<close>

lemma gate_set_iff:
  "foldl check_for_end_or_abort e ns \<longleftrightarrow> e \<or> list_ex terminal ns"
  by (induction ns arbitrary: e) (auto simp add: check_for_end_or_abort_def terminal_def)

lemmas io_defs = io_bind_def io_return_def rpc_def Let_def Event_def wait_def
  SetServoingMode_def ReadAllActions_def OnNotificationActionTopic_def
  ExecuteActionFromReference_def ExecuteAction_def Unsubscribe_def RefreshFeedback_def
  TIMEOUT_DURATION_def

lemma cartesian_run:
  assumes "RefreshFeedback_reply base_cyclic (tr @ [Call_RefreshFeedback]) = Inr fb"
    and "OnNotificationActionTopic_reply base (tr @ take 3 (cartesian_calls px py pz fb)) = Inr h"
    and "ExecuteAction_reply base (tr @ cartesian_calls px py pz fb) = Inr ()"
  shows "example_cartesian_action_movement base base_cyclic px py pz tr =
         (let finished = list_ex terminal (notifications base (tr @ cartesian_calls px py pz fb));
              tr' = tr @ cartesian_calls px py pz fb @ [Call_wait 20 finished, Call_Unsubscribe h]
          in (case Unsubscribe_reply base tr' of Inl err \<Rightarrow> Inl err | Inr u \<Rightarrow> Inr finished, tr'))"
  using assms
  by (simp add: example_cartesian_action_movement_def io_defs cartesian_calls_def gate_set_iff
      split: sum.splits)

lemma home_run:
  assumes "SetServoingMode_reply base (tr @ take 1 (home_calls ah)) = Inr ()"
    and "ReadAllActions_reply base (tr @ take 2 (home_calls ah)) = Inr action_list"
    and "home_handle action_list = Some ah"
    and "OnNotificationActionTopic_reply base (tr @ take 4 (home_calls ah)) = Inr h"
    and "ExecuteActionFromReference_reply base (tr @ home_calls ah) = Inr ()"
  shows "example_move_to_home_position base tr =
         (let finished = list_ex terminal (notifications base (tr @ home_calls ah));
              tr' = tr @ home_calls ah @ [Call_wait 20 finished, Call_Unsubscribe h]
          in (case Unsubscribe_reply base tr' of Inl err \<Rightarrow> Inl err | Inr u \<Rightarrow> Inr finished, tr'))"
  using assms
  by (simp add: example_move_to_home_position_def io_defs home_calls_def gate_set_iff
      split: sum.splits)

lemma home_handle_None: "home_handle action_list = None \<longleftrightarrow> (\<forall>a \<in> set action_list. stored_name a \<noteq> ''Home'')"
proof -
  have "foldl (\<lambda>action_handle action.
              if stored_name action = ''Home'' then Some (stored_handle action)
              else action_handle) acc action_list = None \<longleftrightarrow>
        acc = None \<and> (\<forall>a \<in> set action_list. stored_name a \<noteq> ''Home'')" for acc
    by (induction action_list arbitrary: acc) auto
  then show ?thesis by (simp add: home_handle_def)
qed

lemma home_missing_run:
  assumes "SetServoingMode_reply base (tr @ [Call_SetServoingMode SINGLE_LEVEL_SERVOING]) = Inr ()"
    and "ReadAllActions_reply base
           (tr @ [Call_SetServoingMode SINGLE_LEVEL_SERVOING, Call_ReadAllActions REACH_JOINT_ANGLES]) =
         Inr action_list"
    and "home_handle action_list = None"
  shows "example_move_to_home_position base tr =
         (Inr False,
          tr @ [Call_SetServoingMode SINGLE_LEVEL_SERVOING, Call_ReadAllActions REACH_JOINT_ANGLES])"
  using assms
  by (simp add: example_move_to_home_position_def io_defs)

lemma cartesian_ok:
  assumes "no_transport_error base" and "no_transport_error base_cyclic"
  shows "\<exists>fb h b. example_cartesian_action_movement base base_cyclic px py pz tr =
           (Inr b, tr @ cartesian_calls px py pz fb @ [Call_wait 20 b, Call_Unsubscribe h])"
proof -
  obtain fb where fb: "RefreshFeedback_reply base_cyclic (tr @ [Call_RefreshFeedback]) = Inr fb"
    using assms(2) unfolding no_transport_error_def by blast
  obtain h where h: "OnNotificationActionTopic_reply base (tr @ take 3 (cartesian_calls px py pz fb)) = Inr h"
    using assms(1) unfolding no_transport_error_def by blast
  have ex: "ExecuteAction_reply base (tr @ cartesian_calls px py pz fb) = Inr ()"
    and un: "\<And>t. Unsubscribe_reply base t = Inr ()"
    using assms(1) unfolding no_transport_error_def by blast+
  show ?thesis
    using cartesian_run [OF fb h ex] by (auto simp add: un Let_def)
qed

lemma home_ok:
  assumes "no_transport_error base"
  shows "(\<exists>ah h b. example_move_to_home_position base tr =
            (Inr b, tr @ home_calls ah @ [Call_wait 20 b, Call_Unsubscribe h])) \<or>
         example_move_to_home_position base tr =
            (Inr False,
             tr @ [Call_SetServoingMode SINGLE_LEVEL_SERVOING, Call_ReadAllActions REACH_JOINT_ANGLES])"
proof -
  have replies: "\<And>t. SetServoingMode_reply base t = Inr ()"
    "\<And>t. \<exists>h. OnNotificationActionTopic_reply base t = Inr h"
    "\<And>t. ExecuteActionFromReference_reply base t = Inr ()"
    "\<And>t. Unsubscribe_reply base t = Inr ()"
    using assms unfolding no_transport_error_def by blast+
  obtain action_list where al: "ReadAllActions_reply base
      (tr @ [Call_SetServoingMode SINGLE_LEVEL_SERVOING, Call_ReadAllActions REACH_JOINT_ANGLES]) =
      Inr action_list"
    using assms unfolding no_transport_error_def by blast
  show ?thesis
  proof (cases "home_handle action_list")
    case None
    then show ?thesis
      using home_missing_run [OF replies(1) al] by simp
  next
    case (Some ah)
    obtain h where h: "OnNotificationActionTopic_reply base (tr @ take 4 (home_calls ah)) = Inr h"
      using replies(2) by blast
    have al': "ReadAllActions_reply base (tr @ take 2 (home_calls ah)) = Inr action_list"
      using al by (simp add: home_calls_def)
    show ?thesis
      using home_run [OF replies(1) al' Some h replies(3)]
      by (auto simp add: replies(4) Let_def)
  qed
qed

lemma wait_results_append: "wait_results (xs @ ys) = wait_results xs @ wait_results ys"
  by (induction xs rule: wait_results.induct) simp_all

lemma filter_dispatch_cartesian_calls:
  "filter is_dispatch (cartesian_calls px py pz fb) =
     [Call_ExecuteAction (cartesian_action px py pz fb)]"
  "filter is_ExecuteAction (cartesian_calls px py pz fb) =
     [Call_ExecuteAction (cartesian_action px py pz fb)]"
  "wait_results (cartesian_calls px py pz fb) = []"
  by (simp_all add: cartesian_calls_def)

lemma cartesian_step:
  assumes "no_transport_error base" and "no_transport_error base_cyclic"
  shows "\<exists>b s. example_cartesian_action_movement base base_cyclic px py pz tr = (Inr b, tr @ s) \<and>
           wait_results s = [b] \<and>
           length (filter is_ExecuteAction s) = 1 \<and>
           filter is_dispatch s = filter is_ExecuteAction s"
proof -
  obtain fb h b where "example_cartesian_action_movement base base_cyclic px py pz tr =
      (Inr b, tr @ cartesian_calls px py pz fb @ [Call_wait 20 b, Call_Unsubscribe h])"
    using cartesian_ok [OF assms] by blast
  then show ?thesis
    by (intro exI [of _ b] exI [of _ "cartesian_calls px py pz fb @ [Call_wait 20 b, Call_Unsubscribe h]"])
       (simp add: filter_dispatch_cartesian_calls wait_results_append)
qed

lemma home_step:
  assumes "no_transport_error base"
    and "ReadAllActions_reply base
           (tr @ [Call_SetServoingMode SINGLE_LEVEL_SERVOING, Call_ReadAllActions REACH_JOINT_ANGLES]) =
         Inr action_list"
  shows "\<exists>b s. example_move_to_home_position base tr = (Inr b, tr @ s) \<and>
           filter is_dispatch s =
             (case home_handle action_list of
                None \<Rightarrow> []
              | Some action_handle \<Rightarrow> [Call_ExecuteActionFromReference action_handle]) \<and>
           filter is_ExecuteAction s = [] \<and>
           length (wait_results s) = length (filter is_dispatch s) \<and>
           (b \<longrightarrow> wait_results s = [True]) \<and>
           (wait_results s = [b] \<or> wait_results s = [])"
proof -
  have replies: "\<And>t. SetServoingMode_reply base t = Inr ()"
    "\<And>t. \<exists>h. OnNotificationActionTopic_reply base t = Inr h"
    "\<And>t. ExecuteActionFromReference_reply base t = Inr ()"
    "\<And>t. Unsubscribe_reply base t = Inr ()"
    using assms(1) unfolding no_transport_error_def by blast+
  show ?thesis
  proof (cases "home_handle action_list")
    case None
    have "example_move_to_home_position base tr =
        (Inr False,
         tr @ [Call_SetServoingMode SINGLE_LEVEL_SERVOING, Call_ReadAllActions REACH_JOINT_ANGLES])"
      using home_missing_run [OF replies(1) assms(2) None] .
    then show ?thesis
      using None
      by (intro exI [of _ False]
          exI [of _ "[Call_SetServoingMode SINGLE_LEVEL_SERVOING, Call_ReadAllActions REACH_JOINT_ANGLES]"])
         simp
  next
    case (Some ah)
    obtain h where h: "OnNotificationActionTopic_reply base (tr @ take 4 (home_calls ah)) = Inr h"
      using replies(2) by blast
    have al: "ReadAllActions_reply base (tr @ take 2 (home_calls ah)) = Inr action_list"
      using assms(2) by (simp add: home_calls_def)
    obtain b where "example_move_to_home_position base tr =
        (Inr b, tr @ home_calls ah @ [Call_wait 20 b, Call_Unsubscribe h])"
      using home_run [OF replies(1) al Some h replies(3)]
      by (auto simp add: replies(4) Let_def)
    then show ?thesis
      using Some
      by (intro exI [of _ b] exI [of _ "home_calls ah @ [Call_wait 20 b, Call_Unsubscribe h]"])
         (simp add: home_calls_def)
  qed
qed

lemma draw_points_steps:
  assumes "no_transport_error base" and "no_transport_error base_cyclic"
  shows "\<exists>s. draw_points base base_cyclic pz points success tr =
             (Inr (success \<and> list_all (\<lambda>r. r) (wait_results s)), tr @ s) \<and>
           length (wait_results s) = length points \<and>
           length (filter is_ExecuteAction s) = length points \<and>
           filter is_dispatch s = filter is_ExecuteAction s"
proof (induction points arbitrary: success tr)
  case Nil
  show ?case
    by (intro exI [of _ "[]"]) (simp add: io_return_def)
next
  case (Cons p points)
  obtain px py where p: "p = (px, py)"
    by (cases p)
  obtain b s where first: "example_cartesian_action_movement base base_cyclic px py pz tr = (Inr b, tr @ s)"
    and s: "wait_results s = [b]" "length (filter is_ExecuteAction s) = 1"
      "filter is_dispatch s = filter is_ExecuteAction s"
    using cartesian_step [OF assms] by blast
  obtain s' where rest: "draw_points base base_cyclic pz points (success \<and> b) (tr @ s) =
      (Inr ((success \<and> b) \<and> list_all (\<lambda>r. r) (wait_results s')), (tr @ s) @ s')"
    and s': "length (wait_results s') = length points"
      "length (filter is_ExecuteAction s') = length points"
      "filter is_dispatch s' = filter is_ExecuteAction s'"
    using Cons.IH by blast
  show ?case
    using first rest s s'
    by (intro exI [of _ "s @ s'"]) (simp add: p io_bind_def wait_results_append)
qed

lemma refresh_ok:
  assumes "no_transport_error base_cyclic"
  shows "\<exists>fb. RefreshFeedback base_cyclic tr = (Inr fb, tr @ [Call_RefreshFeedback])"
  using assms unfolding no_transport_error_def
  by (simp add: RefreshFeedback_def rpc_def Let_def)

lemma main_trace:
  assumes "no_transport_error router"
    and "ReadAllActions_reply router
           (tr @ [Call_RefreshFeedback, Call_SetServoingMode SINGLE_LEVEL_SERVOING,
                  Call_ReadAllActions REACH_JOINT_ANGLES]) = Inr action_list"
  shows "\<exists>exit_code s. main router tr = (Inr exit_code, tr @ s) \<and>
           filter is_dispatch s =
             (case home_handle action_list of
                None \<Rightarrow> []
              | Some action_handle \<Rightarrow> [Call_ExecuteActionFromReference action_handle]) @
             filter is_ExecuteAction s \<and>
           length (filter is_ExecuteAction s) = 5 \<and>
           length (wait_results s) = length (filter is_dispatch s) \<and>
           (False \<in> set (wait_results s) \<longrightarrow> exit_code = 1)"
proof -
  obtain fb0 where f0: "RefreshFeedback router tr = (Inr fb0, tr @ [Call_RefreshFeedback])"
    using refresh_ok [OF assms(1)] by blast
  have al: "ReadAllActions_reply router
      ((tr @ [Call_RefreshFeedback]) @
       [Call_SetServoingMode SINGLE_LEVEL_SERVOING, Call_ReadAllActions REACH_JOINT_ANGLES]) =
      Inr action_list"
    using assms(2) by simp
  obtain r0 s0 where h: "example_move_to_home_position router (tr @ [Call_RefreshFeedback]) =
      (Inr r0, (tr @ [Call_RefreshFeedback]) @ s0)"
    and s0: "filter is_dispatch s0 =
             (case home_handle action_list of
                None \<Rightarrow> []
              | Some action_handle \<Rightarrow> [Call_ExecuteActionFromReference action_handle])"
      "filter is_ExecuteAction s0 = []"
      "length (wait_results s0) = length (filter is_dispatch s0)"
      "r0 \<longrightarrow> wait_results s0 = [True]"
      "wait_results s0 = [r0] \<or> wait_results s0 = []"
    using home_step [OF assms(1) al] by blast
  let ?t1 = "(tr @ [Call_RefreshFeedback]) @ s0"
  obtain fb1 where f1: "RefreshFeedback router ?t1 = (Inr fb1, ?t1 @ [Call_RefreshFeedback])"
    using refresh_ok [OF assms(1)] by blast
  obtain px py pz where pose: "drawing_default_pose fb1 = (px, py, pz)"
    by (cases "drawing_default_pose fb1")
  let ?t2 = "?t1 @ [Call_RefreshFeedback]"
  obtain r1 s1 where c: "example_cartesian_action_movement router router px py pz ?t2 =
      (Inr r1, ?t2 @ s1)"
    and s1: "wait_results s1 = [r1]" "length (filter is_ExecuteAction s1) = 1"
      "filter is_dispatch s1 = filter is_ExecuteAction s1"
    using cartesian_step [OF assms(1) assms(1)] by blast
  let ?t3 = "?t2 @ s1"
  obtain fb2 where f2: "RefreshFeedback router ?t3 = (Inr fb2, ?t3 @ [Call_RefreshFeedback])"
    using refresh_ok [OF assms(1)] by blast
  let ?t4 = "?t3 @ [Call_RefreshFeedback]"
  obtain s2 where d: "draw_points router router (tool_pose_z fb2) (rectangle_points fb2)
      ((True \<and> r0) \<and> r1) ?t4 =
      (Inr (((True \<and> r0) \<and> r1) \<and> list_all (\<lambda>r. r) (wait_results s2)), ?t4 @ s2)"
    and s2: "length (wait_results s2) = length (rectangle_points fb2)"
      "length (filter is_ExecuteAction s2) = length (rectangle_points fb2)"
      "filter is_dispatch s2 = filter is_ExecuteAction s2"
    using draw_points_steps [OF assms(1) assms(1)] by blast
  have four: "length (rectangle_points fb2) = 4"
    by (simp add: rectangle_points_def)
  let ?s = "[Call_RefreshFeedback] @ s0 @ [Call_RefreshFeedback] @ s1 @ [Call_RefreshFeedback] @ s2"
  let ?code = "if r0 \<and> r1 \<and> list_all (\<lambda>r. r) (wait_results s2) then 0 else 1 :: int"
  have run: "main router tr = (Inr ?code, tr @ ?s)"
    by (simp add: main_def Let_def io_bind_def io_return_def f0 h [simplified] f1 [simplified]
        pose c [simplified] f2 [simplified] d [simplified])
  have w: "wait_results ?s = wait_results s0 @ [r1] @ wait_results s2"
    by (simp add: wait_results_append s1)
  have disp: "filter is_dispatch ?s =
      (case home_handle action_list of
         None \<Rightarrow> []
       | Some action_handle \<Rightarrow> [Call_ExecuteActionFromReference action_handle]) @
      filter is_ExecuteAction ?s"
    by (simp add: s0 s1 s2)
  have count: "length (filter is_ExecuteAction ?s) = 5"
    using s0(2) s1(2) s2(2) four by simp
  have waits: "length (wait_results ?s) = length (filter is_dispatch ?s)"
    unfolding w using s0(3) s1 s2 four by simp
  have fail: "False \<in> set (wait_results ?s) \<longrightarrow> ?code = 1"
    unfolding w using s0(4,5) by (auto simp add: list_all_iff)
  show ?thesis
    using run disp count waits fail by (intro exI [of _ ?code] exI [of _ ?s]) (simp only: simp_thms)
qed

lemma main_steps:
  assumes "RefreshFeedback router tr = (Inr fb0, tr1)"
    and "example_move_to_home_position router tr1 = (Inr r_home, tr2)"
    and "RefreshFeedback router tr2 = (Inr fb1, tr3)"
    and "example_cartesian_action_movement router router
           (float_add (tool_pose_x fb1) (lit (2 / 10)))
           (float_add (tool_pose_y fb1) (lit (1 / 10)))
           (float_sub (tool_pose_z fb1) (lit (37 / 100))) tr3 = (Inr r_first, tr4)"
    and "RefreshFeedback router tr4 = (Inr fb2, tr5)"
    and "example_cartesian_action_movement router router
           (float_add (tool_pose_x fb2) (lit (5 / 100))) (tool_pose_y fb2)
           (tool_pose_z fb2) tr5 = (Inr r1, tr6)"
    and "example_cartesian_action_movement router router
           (float_add (tool_pose_x fb2) (lit (5 / 100)))
           (float_add (tool_pose_y fb2) (lit (5 / 100)))
           (tool_pose_z fb2) tr6 = (Inr r2, tr7)"
    and "example_cartesian_action_movement router router
           (float_sub (tool_pose_x fb2) (lit (5 / 100)))
           (float_add (tool_pose_y fb2) (lit (5 / 100)))
           (tool_pose_z fb2) tr7 = (Inr r3, tr8)"
    and "example_cartesian_action_movement router router
           (float_sub (tool_pose_x fb2) (lit (5 / 100)))
           (float_sub (tool_pose_y fb2) (lit (5 / 100)))
           (tool_pose_z fb2) tr8 = (Inr r4, tr9)"
  shows "main router tr =
         (Inr (if r_home \<and> r_first \<and> r1 \<and> r2 \<and> r3 \<and> r4 then 0 else 1), tr9)"
proof -
  have "main router tr =
      (Inr (if (((((True \<and> r_home) \<and> r_first) \<and> r1) \<and> r2) \<and> r3) \<and> r4 then 0 else 1), tr9)"
    unfolding main_def Let_def drawing_default_pose_def rectangle_points_def
    by (simp only: io_bind_def io_return_def assms prod.case sum.case draw_points.simps)
  then show ?thesis
    by (simp only: simp_thms conj_assoc)
qed

lemma cartesian_total:
  assumes "no_transport_error base" and "no_transport_error base_cyclic"
  shows "\<exists>b tr'. example_cartesian_action_movement base base_cyclic px py pz tr = (Inr b, tr')"
  using cartesian_ok [OF assms, of px py pz tr] by blast

lemma home_total:
  assumes "no_transport_error base"
  shows "\<exists>b tr'. example_move_to_home_position base tr = (Inr b, tr')"
  using home_ok [OF assms, of tr] by blast

lemma refresh_total:
  assumes "no_transport_error base_cyclic"
  shows "\<exists>fb tr'. RefreshFeedback base_cyclic tr = (Inr fb, tr')"
  using refresh_ok [OF assms, of tr] by blast

subsection \<open>Concrete runs\<close>

lemmas run_defs = main_def example_move_to_home_position_def
  example_cartesian_action_movement_def io_defs scripted_device_def home_handle_def
  home_action_def drawing_default_pose_def rectangle_points_def

lemma no_transport_error_scripted: "no_transport_error (scripted_device action_list ns)"
  by (simp add: no_transport_error_def scripted_device_def)

lemma main_stalling_run:
  "fst (main stalling_device []) = Inr 1 \<and>
   wait_results (snd (main stalling_device [])) = [True, False, False, False, False, False] \<and>
   length (filter is_dispatch (snd (main stalling_device []))) = 6 \<and>
   length (filter is_ExecuteAction (snd (main stalling_device []))) = 5"
  by (simp add: run_defs stalling_device_def check_for_end_or_abort_def)

lemma main_completing_run:
  "fst (main completing_device []) = Inr 0 \<and>
   wait_results (snd (main completing_device [])) = [True, True, True, True, True, True]"
  by (simp add: run_defs completing_device_def check_for_end_or_abort_def)

lemma cartesian_faulty_run:
  "example_cartesian_action_movement faulty_device faulty_device (Finite 0) (Finite 0) (Finite 0) [] =
   (Inl TransportError, cartesian_calls (Finite 0) (Finite 0) (Finite 0) zero_feedback)"
  by (simp add: run_defs faulty_device_def cartesian_calls_def)

lemma cartesian_completing_run:
  "example_cartesian_action_movement completing_device completing_device
     (Finite 0) (Finite 0) (Finite 0) [] =
   (Inr True,
    cartesian_calls (Finite 0) (Finite 0) (Finite 0) zero_feedback @
      [Call_wait 20 True, Call_Unsubscribe 7])"
  by (simp add: run_defs completing_device_def cartesian_calls_def check_for_end_or_abort_def)

lemma home_completing_run:
  "example_move_to_home_position completing_device [] =
   (Inr True, home_calls 2 @ [Call_wait 20 True, Call_Unsubscribe 7])"
  by (simp add: run_defs completing_device_def home_calls_def check_for_end_or_abort_def)

lemma completing_replies:
  "RefreshFeedback_reply completing_device t = Inr zero_feedback"
  "ReadAllActions_reply completing_device t = Inr [home_action]"
  "OnNotificationActionTopic_reply completing_device t = Inr 7"
  "ExecuteAction_reply completing_device t = Inr ()"
  "ExecuteActionFromReference_reply completing_device t = Inr ()"
  "SetServoingMode_reply completing_device t = Inr ()"
  "notifications completing_device t = [\<lparr>action_event = ACTION_START\<rparr>, \<lparr>action_event = ACTION_END\<rparr>]"
  by (simp_all add: completing_device_def scripted_device_def)

lemma home_handle_home_action: "home_handle [home_action] = Some 2"
  by (simp add: home_handle_def home_action_def)

lemma completing_refresh:
  "RefreshFeedback completing_device t = (Inr zero_feedback, t @ [Call_RefreshFeedback])"
  by (simp add: RefreshFeedback_def rpc_def completing_device_def scripted_device_def)

lemma completing_cartesian:
  "fst (example_cartesian_action_movement completing_device completing_device px py pz t) = Inr True"
  by (simp add: run_defs completing_device_def check_for_end_or_abort_def)

lemma completing_home:
  "fst (example_move_to_home_position completing_device t) = Inr True"
  by (simp add: run_defs completing_device_def check_for_end_or_abort_def)

section \<open>The claims\<close>

text \<open>
  C1, as stated, fails. The claim: when the first \<open>K\<close> dispatches complete and the next
  one times out, \<open>main\<close> returns failure after exactly \<open>K + 1\<close> dispatch calls. On
  \<open>stalling_device\<close> the move to the home position completes and the first Cartesian
  move times out (\<open>K = 1\<close>); \<open>main\<close> returns 1, but after six dispatch calls, not two:
  the four moves of the rectangle are dispatched as well.
\<close>

theorem main_fail_fast_counterexample:
  "wait_results (snd (main stalling_device [])) = [True, False, False, False, False, False] \<and>
   fst (main stalling_device []) = Inr 1 \<and>
   length (filter is_dispatch (snd (main stalling_device []))) = 6 \<and>
   length (filter is_dispatch (snd (main stalling_device []))) \<noteq> 2"
  using main_stalling_run by simp

text \<open>
  C1 (amended): \<open>main\<close> does not stop at a step that fails. On every device whose calls
  do not raise, \<open>main\<close> returns an exit code after having dispatched every step,
  whatever the earlier steps returned (\<open>success &= ...\<close> evaluates every step): the
  dispatch calls of its trace are the stored Home action, when the list that
  \<open>ReadAllActions\<close> returned holds one, followed by five inline Cartesian actions. Every
  dispatch is waited for, and the exit code is 1 whenever some wait timed out.
\<close>

theorem main_dispatches_every_step:
  assumes "no_transport_error router"
  shows "\<exists>exit_code s action_list.
           main router tr = (Inr exit_code, tr @ s) \<and>
           ReadAllActions_reply router
             (tr @ [Call_RefreshFeedback, Call_SetServoingMode SINGLE_LEVEL_SERVOING,
                    Call_ReadAllActions REACH_JOINT_ANGLES]) = Inr action_list \<and>
           filter is_dispatch s =
             (case home_handle action_list of
                None \<Rightarrow> []
              | Some action_handle \<Rightarrow> [Call_ExecuteActionFromReference action_handle]) @
             filter is_ExecuteAction s \<and>
           length (filter is_ExecuteAction s) = 5 \<and>
           length (wait_results s) = length (filter is_dispatch s) \<and>
           (False \<in> set (wait_results s) \<longrightarrow> exit_code = 1)"
proof -
  obtain action_list where al: "ReadAllActions_reply router
      (tr @ [Call_RefreshFeedback, Call_SetServoingMode SINGLE_LEVEL_SERVOING,
             Call_ReadAllActions REACH_JOINT_ANGLES]) = Inr action_list"
    using assms unfolding no_transport_error_def by blast
  show ?thesis
    using main_trace [OF assms al] al by blast
qed

text \<open>
  C1, a run: on \<open>stalling_device\<close> the Home action and the five inline actions are
  dispatched, six dispatch calls in all; the second wait and all later ones time out and
  the exit code is 1.
\<close>

theorem main_dispatches_every_step_witness:
  "no_transport_error stalling_device \<and>
   ReadAllActions_reply stalling_device
     [Call_RefreshFeedback, Call_SetServoingMode SINGLE_LEVEL_SERVOING,
      Call_ReadAllActions REACH_JOINT_ANGLES] = Inr [home_action] \<and>
   home_handle [home_action] = Some 2 \<and>
   (\<exists>s. main stalling_device [] = (Inr 1, s) \<and>
      filter is_dispatch s = Call_ExecuteActionFromReference 2 # filter is_ExecuteAction s \<and>
      length (filter is_ExecuteAction s) = 5 \<and>
      length (filter is_dispatch s) = 6 \<and>
      wait_results s = [True, False, False, False, False, False])"
proof -
  have ok: "no_transport_error stalling_device"
    by (simp add: stalling_device_def no_transport_error_scripted)
  have al: "ReadAllActions_reply stalling_device t = Inr [home_action]" for t
    by (simp add: stalling_device_def scripted_device_def)
  obtain exit_code s action_list where run: "main stalling_device [] = (Inr exit_code, [] @ s)"
    and reply: "ReadAllActions_reply stalling_device
        ([] @ [Call_RefreshFeedback, Call_SetServoingMode SINGLE_LEVEL_SERVOING,
               Call_ReadAllActions REACH_JOINT_ANGLES]) = Inr action_list"
    and disp: "filter is_dispatch s =
        (case home_handle action_list of
           None \<Rightarrow> []
         | Some action_handle \<Rightarrow> [Call_ExecuteActionFromReference action_handle]) @
        filter is_ExecuteAction s"
    and count: "length (filter is_ExecuteAction s) = 5"
    and code: "False \<in> set (wait_results s) \<longrightarrow> exit_code = 1"
    using main_dispatches_every_step [OF ok, of "[]"] by blast
  have list: "action_list = [home_action]"
    using reply al by simp
  have waits: "wait_results s = [True, False, False, False, False, False]"
    using main_stalling_run run by simp
  have "exit_code = 1"
    using code waits by simp
  then show ?thesis
    using ok al run disp count waits unfolding list by (simp add: home_handle_home_action)
qed

text \<open>
  C2: a dispatch that returns (\<open>example_cartesian_action_movement\<close>, or
  \<open>example_move_to_home_position\<close> once it has found the Home action) returns true if
  and only if one of the notifications delivered to its callback before the wait ended
  is \<open>ACTION_END\<close> or \<open>ACTION_ABORT\<close>, and false otherwise. No other event sets the
  gate, and END and ABORT are not told apart.
\<close>

theorem dispatch_completed_iff_terminal_notification:
  "(example_cartesian_action_movement base base_cyclic pose_x pose_y pose_z tr = (Inr finished, tr') \<longrightarrow>
    RefreshFeedback_reply base_cyclic (tr @ [Call_RefreshFeedback]) = Inr feedback \<longrightarrow>
    (finished \<longleftrightarrow>
       (\<exists>n \<in> set (notifications base (tr @ cartesian_calls pose_x pose_y pose_z feedback)).
          action_event n = ACTION_END \<or> action_event n = ACTION_ABORT))) \<and>
   (example_move_to_home_position base tr = (Inr finished, tr') \<longrightarrow>
    ReadAllActions_reply base
      (tr @ [Call_SetServoingMode SINGLE_LEVEL_SERVOING, Call_ReadAllActions REACH_JOINT_ANGLES]) =
      Inr action_list \<longrightarrow>
    home_handle action_list = Some action_handle \<longrightarrow>
    (finished \<longleftrightarrow>
       (\<exists>n \<in> set (notifications base (tr @ home_calls action_handle)).
          action_event n = ACTION_END \<or> action_event n = ACTION_ABORT)))"
proof (intro conjI impI)
  assume "example_cartesian_action_movement base base_cyclic pose_x pose_y pose_z tr = (Inr finished, tr')"
    and "RefreshFeedback_reply base_cyclic (tr @ [Call_RefreshFeedback]) = Inr feedback"
  then show "finished \<longleftrightarrow>
       (\<exists>n \<in> set (notifications base (tr @ cartesian_calls pose_x pose_y pose_z feedback)).
          action_event n = ACTION_END \<or> action_event n = ACTION_ABORT)"
    by (auto simp add: example_cartesian_action_movement_def io_defs cartesian_calls_def
        gate_set_iff list_ex_iff terminal_def split: sum.splits)
next
  assume "example_move_to_home_position base tr = (Inr finished, tr')"
    and "ReadAllActions_reply base
      (tr @ [Call_SetServoingMode SINGLE_LEVEL_SERVOING, Call_ReadAllActions REACH_JOINT_ANGLES]) =
      Inr action_list"
    and "home_handle action_list = Some action_handle"
  then show "finished \<longleftrightarrow>
       (\<exists>n \<in> set (notifications base (tr @ home_calls action_handle)).
          action_event n = ACTION_END \<or> action_event n = ACTION_ABORT)"
    by (auto simp add: example_move_to_home_position_def io_defs home_calls_def
        gate_set_iff list_ex_iff terminal_def split: sum.splits)
qed

text \<open>
  C2, two runs: \<open>completing_device\<close> delivers START and END to each callback; the
  Cartesian move and the move to the home position return true.
\<close>

theorem dispatch_completed_iff_terminal_notification_witness:
  "example_cartesian_action_movement completing_device completing_device
     (Finite 0) (Finite 0) (Finite 0) [] =
     (Inr True,
      cartesian_calls (Finite 0) (Finite 0) (Finite 0) zero_feedback @
        [Call_wait 20 True, Call_Unsubscribe 7]) \<and>
   RefreshFeedback_reply completing_device [Call_RefreshFeedback] = Inr zero_feedback \<and>
   (\<exists>n \<in> set (notifications completing_device
               (cartesian_calls (Finite 0) (Finite 0) (Finite 0) zero_feedback)).
      action_event n = ACTION_END \<or> action_event n = ACTION_ABORT) \<and>
   example_move_to_home_position completing_device [] =
     (Inr True, home_calls 2 @ [Call_wait 20 True, Call_Unsubscribe 7]) \<and>
   home_handle [home_action] = Some 2 \<and>
   (\<exists>n \<in> set (notifications completing_device (home_calls 2)).
      action_event n = ACTION_END \<or> action_event n = ACTION_ABORT)"
  using cartesian_completing_run home_completing_run home_handle_home_action
    completing_replies(1,2)
    dispatch_completed_iff_terminal_notification
      [of completing_device completing_device "Finite 0" "Finite 0" "Finite 0" "[]" True
          "cartesian_calls (Finite 0) (Finite 0) (Finite 0) zero_feedback @
             [Call_wait 20 True, Call_Unsubscribe 7]" zero_feedback]
    dispatch_completed_iff_terminal_notification
      [of completing_device completing_device "Finite 0" "Finite 0" "Finite 0" "[]" True
          "home_calls 2 @ [Call_wait 20 True, Call_Unsubscribe 7]" zero_feedback
          "[home_action]" 2]
  by simp

text \<open>
  C3, as stated, fails. The claim: on every exit of a dispatch that subscribed, also
  when issuing the action raises, the handle is unsubscribed exactly once. On
  \<open>faulty_device\<close> the subscription succeeds with handle 7, \<open>ExecuteAction\<close> raises, the
  error leaves \<open>example_cartesian_action_movement\<close>, and \<open>Unsubscribe\<close> is never called:
  the source has no handler around the calls.
\<close>

theorem unsubscribe_skipped_counterexample:
  "OnNotificationActionTopic_reply faulty_device
     [Call_RefreshFeedback, Call_Event, Call_OnNotificationActionTopic] = Inr 7 \<and>
   fst (example_cartesian_action_movement faulty_device faulty_device
          (Finite 0) (Finite 0) (Finite 0) []) = Inl TransportError \<and>
   Call_OnNotificationActionTopic \<in>
     set (snd (example_cartesian_action_movement faulty_device faulty_device
                 (Finite 0) (Finite 0) (Finite 0) [])) \<and>
   filter is_Unsubscribe
     (snd (example_cartesian_action_movement faulty_device faulty_device
             (Finite 0) (Finite 0) (Finite 0) [])) = []"
proof -
  have "OnNotificationActionTopic_reply faulty_device
     [Call_RefreshFeedback, Call_Event, Call_OnNotificationActionTopic] = Inr 7"
    by (simp add: faulty_device_def scripted_device_def)
  then show ?thesis
    unfolding cartesian_faulty_run by (simp add: cartesian_calls_def)
qed

text \<open>
  C3 (amended): in a dispatch that subscribed and whose action was issued without an
  error, the handle is unsubscribed exactly once, after the wait and whatever the wait
  returned (completion or timeout). This holds for \<open>example_cartesian_action_movement\<close>
  and for \<open>example_move_to_home_position\<close>: the trace of the dispatch ends with the
  wait and the one \<open>Unsubscribe\<close> of the handle, and has no \<open>Unsubscribe\<close> before.
\<close>

theorem unsubscribe_once_after_wait:
  "(RefreshFeedback_reply base_cyclic (tr @ [Call_RefreshFeedback]) = Inr feedback \<longrightarrow>
    OnNotificationActionTopic_reply base
      (tr @ [Call_RefreshFeedback, Call_Event, Call_OnNotificationActionTopic]) = Inr h \<longrightarrow>
    ExecuteAction_reply base (tr @ cartesian_calls pose_x pose_y pose_z feedback) = Inr () \<longrightarrow>
    (\<exists>r b s. example_cartesian_action_movement base base_cyclic pose_x pose_y pose_z tr =
         (r, tr @ s @ [Call_wait TIMEOUT_DURATION b, Call_Unsubscribe h]) \<and>
       filter is_Unsubscribe s = [])) \<and>
   (SetServoingMode_reply base (tr @ [Call_SetServoingMode SINGLE_LEVEL_SERVOING]) = Inr () \<longrightarrow>
    ReadAllActions_reply base
      (tr @ [Call_SetServoingMode SINGLE_LEVEL_SERVOING, Call_ReadAllActions REACH_JOINT_ANGLES]) =
      Inr action_list \<longrightarrow>
    home_handle action_list = Some action_handle \<longrightarrow>
    OnNotificationActionTopic_reply base
      (tr @ [Call_SetServoingMode SINGLE_LEVEL_SERVOING, Call_ReadAllActions REACH_JOINT_ANGLES,
             Call_Event, Call_OnNotificationActionTopic]) = Inr h \<longrightarrow>
    ExecuteActionFromReference_reply base (tr @ home_calls action_handle) = Inr () \<longrightarrow>
    (\<exists>r b s. example_move_to_home_position base tr =
         (r, tr @ s @ [Call_wait TIMEOUT_DURATION b, Call_Unsubscribe h]) \<and>
       filter is_Unsubscribe s = []))"
proof (intro conjI impI)
  assume fb: "RefreshFeedback_reply base_cyclic (tr @ [Call_RefreshFeedback]) = Inr feedback"
    and h: "OnNotificationActionTopic_reply base
      (tr @ [Call_RefreshFeedback, Call_Event, Call_OnNotificationActionTopic]) = Inr h"
    and ex: "ExecuteAction_reply base (tr @ cartesian_calls pose_x pose_y pose_z feedback) = Inr ()"
  have h': "OnNotificationActionTopic_reply base
      (tr @ take 3 (cartesian_calls pose_x pose_y pose_z feedback)) = Inr h"
    using h by (simp add: cartesian_calls_def)
  have quiet: "filter is_Unsubscribe (cartesian_calls pose_x pose_y pose_z feedback) = []"
    by (simp add: cartesian_calls_def)
  show "\<exists>r b s. example_cartesian_action_movement base base_cyclic pose_x pose_y pose_z tr =
         (r, tr @ s @ [Call_wait TIMEOUT_DURATION b, Call_Unsubscribe h]) \<and>
       filter is_Unsubscribe s = []"
    using cartesian_run [OF fb h' ex] quiet
    by (simp add: Let_def TIMEOUT_DURATION_def)
next
  assume sm: "SetServoingMode_reply base (tr @ [Call_SetServoingMode SINGLE_LEVEL_SERVOING]) = Inr ()"
    and al: "ReadAllActions_reply base
      (tr @ [Call_SetServoingMode SINGLE_LEVEL_SERVOING, Call_ReadAllActions REACH_JOINT_ANGLES]) =
      Inr action_list"
    and ah: "home_handle action_list = Some action_handle"
    and h: "OnNotificationActionTopic_reply base
      (tr @ [Call_SetServoingMode SINGLE_LEVEL_SERVOING, Call_ReadAllActions REACH_JOINT_ANGLES,
             Call_Event, Call_OnNotificationActionTopic]) = Inr h"
    and ex: "ExecuteActionFromReference_reply base (tr @ home_calls action_handle) = Inr ()"
  have sm': "SetServoingMode_reply base (tr @ take 1 (home_calls action_handle)) = Inr ()"
    using sm by (simp add: home_calls_def)
  have al': "ReadAllActions_reply base (tr @ take 2 (home_calls action_handle)) = Inr action_list"
    using al by (simp add: home_calls_def)
  have h': "OnNotificationActionTopic_reply base (tr @ take 4 (home_calls action_handle)) = Inr h"
    using h by (simp add: home_calls_def)
  have quiet: "filter is_Unsubscribe (home_calls action_handle) = []"
    by (simp add: home_calls_def)
  show "\<exists>r b s. example_move_to_home_position base tr =
         (r, tr @ s @ [Call_wait TIMEOUT_DURATION b, Call_Unsubscribe h]) \<and>
       filter is_Unsubscribe s = []"
    using home_run [OF sm' al' ah h' ex] quiet
    by (simp add: Let_def TIMEOUT_DURATION_def)
qed

text \<open>
  C3, two runs: the Cartesian move and the move to the home position on
  \<open>completing_device\<close>.
\<close>

theorem unsubscribe_once_after_wait_witness:
  "RefreshFeedback_reply completing_device [Call_RefreshFeedback] = Inr zero_feedback \<and>
   OnNotificationActionTopic_reply completing_device
     [Call_RefreshFeedback, Call_Event, Call_OnNotificationActionTopic] = Inr 7 \<and>
   ExecuteAction_reply completing_device
     (cartesian_calls (Finite 0) (Finite 0) (Finite 0) zero_feedback) = Inr () \<and>
   (\<exists>r b s. example_cartesian_action_movement completing_device completing_device
        (Finite 0) (Finite 0) (Finite 0) [] =
        (r, s @ [Call_wait TIMEOUT_DURATION b, Call_Unsubscribe 7]) \<and>
      filter is_Unsubscribe s = []) \<and>
   home_handle [home_action] = Some 2 \<and>
   ExecuteActionFromReference_reply completing_device (home_calls 2) = Inr () \<and>
   (\<exists>r b s. example_move_to_home_position completing_device [] =
        (r, s @ [Call_wait TIMEOUT_DURATION b, Call_Unsubscribe 7]) \<and>
      filter is_Unsubscribe s = [])"
  using completing_replies(1-6) home_handle_home_action
    unsubscribe_once_after_wait
      [of completing_device "[]" zero_feedback completing_device 7 "Finite 0" "Finite 0" "Finite 0"
          "[home_action]" 2]
  by simp

text \<open>
  C4, where the code departs from the claim. The claim: the ramp from 1.0 in steps of
  0.2, guarded by \<open>position > 0.0\<close>, sends exactly the five positions 1.00, 0.80, 0.60,
  0.40, 0.20 and nothing displayed as 0.00. On a device that accepts every command the
  loop of the source runs a sixth time: in float arithmetic the fifth subtraction leaves
  \<open>2^-54\<close> instead of 0.0, the guard lets it pass, and a sixth command is sent whose
  value the example prints as 0.00.
\<close>

theorem position_ramp_sends_six_commands:
  "map_option (commanded_positions \<circ> snd) (position_ramp (scripted_base []) (lit 1) []) \<noteq>
     Some [lit 1, lit (8 / 10), lit (6 / 10), lit (4 / 10), lit (2 / 10)] \<and>
   map_option (map displayed \<circ> commanded_positions \<circ> snd)
     (position_ramp (scripted_base []) (lit 1) []) =
     Some [Some 100, Some 80, Some 60, Some 40, Some 20, Some 0]"
proof -
  have res: "position_ramp (scripted_base []) (lit 1) [] =
      Some (Inr (), [] @ ramp_trace ramp_positions)"
    by (rule position_ramp_from_1) (simp add: scripted_base_def)
  have sent: "map_option (commanded_positions \<circ> snd)
      (position_ramp (scripted_base []) (lit 1) []) = Some ramp_positions"
    unfolding res by (simp add: commanded_positions_ramp_trace)
  have shown: "map_option (map displayed \<circ> commanded_positions \<circ> snd)
      (position_ramp (scripted_base []) (lit 1) []) =
      Some [Some 100, Some 80, Some 60, Some 40, Some 20, Some 0]"
    unfolding res by (simp add: commanded_positions_ramp_trace displayed_ramp_positions)
  have six: "length ramp_positions = 6"
    by (simp add: ramp_positions_def)
  have differ: "ramp_positions \<noteq> [lit 1, lit (8 / 10), lit (6 / 10), lit (4 / 10), lit (2 / 10)]"
  proof
    assume "ramp_positions = [lit 1, lit (8 / 10), lit (6 / 10), lit (4 / 10), lit (2 / 10)]"
    then have "length ramp_positions =
        length [lit 1, lit (8 / 10), lit (6 / 10), lit (4 / 10), lit (2 / 10)]"
      by (rule arg_cong)
    then show False
      using six by simp
  qed
  show ?thesis
    unfolding sent shown using differ by (simp only: option.inject simp_thms)
qed

text \<open>
  C5: if the polls before poll \<open>n\<close> return non-empty finger lists whose first value is
  not greater than 0.86, and poll \<open>n\<close> returns a non-empty list whose first value is
  strictly greater than 0.86, then the loop ends normally with poll \<open>n\<close>: it has made
  exactly \<open>n + 1\<close> requests.
\<close>

theorem polling_stops_at_first_value_above_threshold:
  assumes "\<forall>k<n. \<exists>m'. poll_reply base req tr k = Inr m' \<and> finger m' \<noteq> [] \<and>
             \<not> float_gt (finger_value (hd (finger m'))) (lit (86 / 100))"
    and "poll_reply base req tr n = Inr m"
    and "finger m \<noteq> []"
    and "float_gt (finger_value (hd (finger m))) (lit (86 / 100))"
  shows "wait_for_position base req tr =
         Some (Inr (), tr @ replicate (Suc n) (Call_GetMeasuredGripperMovement req))"
proof -
  have before: "keeps_polling (poll_reply base req tr k)" if "k < n" for k
    using assms(1) that by (auto simp add: keeps_polling_def)
  have at_n: "\<not> keeps_polling (poll_reply base req tr n)"
    using assms(2-4) by (simp add: keeps_polling_def)
  show ?thesis
    using wait_for_position_first_stop [OF before at_n] assms(2) by simp
qed

text \<open>
  C5, the stream 0.5, 0.7, 0.86, 0.90: the third measurement equals the threshold and
  does not end the loop; all four values are polled and the loop ends at 0.90.
\<close>

theorem polling_stops_at_first_value_above_threshold_witness:
  "poll_reply (scripted_base closing_stream) \<lparr>request_mode = GRIPPER_POSITION\<rparr> [] 2 =
     Inr (measured (lit (86 / 100))) \<and>
   \<not> float_gt (lit (86 / 100)) (lit (86 / 100)) \<and>
   poll_reply (scripted_base closing_stream) \<lparr>request_mode = GRIPPER_POSITION\<rparr> [] 3 =
     Inr (measured (lit (90 / 100))) \<and>
   float_gt (lit (90 / 100)) (lit (86 / 100)) \<and>
   wait_for_position (scripted_base closing_stream) \<lparr>request_mode = GRIPPER_POSITION\<rparr> [] =
     Some (Inr (), replicate 4 (Call_GetMeasuredGripperMovement \<lparr>request_mode = GRIPPER_POSITION\<rparr>))"
proof -
  let ?base = "scripted_base closing_stream"
  let ?req = "\<lparr>request_mode = GRIPPER_POSITION\<rparr>"
  have before: "\<forall>k<3. \<exists>m'. poll_reply ?base ?req [] k = Inr m' \<and> finger m' \<noteq> [] \<and>
      \<not> float_gt (finger_value (hd (finger m'))) (lit (86 / 100))"
    by (simp add: eval_nat_numeral All_less_Suc poll_reply_scripted closing_stream_def
        measured_def lits)
  have last: "poll_reply ?base ?req [] 3 = Inr (measured (lit (90 / 100)))"
    by (simp add: closing_stream_polls lits)
  have third: "poll_reply ?base ?req [] 2 = Inr (measured (lit (86 / 100)))"
    by (simp add: closing_stream_polls lits)
  have above: "float_gt (lit (90 / 100)) (lit (86 / 100))"
    by (simp add: lits)
  have not_above: "\<not> float_gt (lit (86 / 100)) (lit (86 / 100))"
    by (simp add: lits)
  have "wait_for_position ?base ?req [] =
      Some (Inr (), [] @ replicate (Suc 3) (Call_GetMeasuredGripperMovement ?req))"
    using before last above
    by (intro polling_stops_at_first_value_above_threshold [where m = "measured (lit (90 / 100))"])
       (simp_all add: measured_def)
  then show ?thesis
    using third last above not_above by (simp add: eval_nat_numeral)
qed

text \<open>
  C6: if a poll that the loop reaches, the first one included (\<open>n = 0\<close>), returns a
  measurement with an empty finger list, the loop ends at once and normally: the result
  is not an error, and no request follows that poll.
\<close>

theorem polling_ends_on_empty_finger_list:
  assumes "\<forall>k<n. \<exists>m'. poll_reply base req tr k = Inr m' \<and> finger m' \<noteq> [] \<and>
             \<not> float_gt (finger_value (hd (finger m'))) (lit (86 / 100))"
    and "poll_reply base req tr n = Inr m"
    and "finger m = []"
  shows "wait_for_position base req tr =
         Some (Inr (), tr @ replicate (Suc n) (Call_GetMeasuredGripperMovement req))"
proof -
  have before: "keeps_polling (poll_reply base req tr k)" if "k < n" for k
    using assms(1) that by (auto simp add: keeps_polling_def)
  have at_n: "\<not> keeps_polling (poll_reply base req tr n)"
    using assms(2,3) by (simp add: keeps_polling_def)
  show ?thesis
    using wait_for_position_first_stop [OF before at_n] assms(2) by simp
qed

text \<open>
  C6, a run: a device that reports no finger on the first poll.
\<close>

theorem polling_ends_on_empty_finger_list_witness:
  "poll_reply (scripted_base []) \<lparr>request_mode = GRIPPER_POSITION\<rparr> [] 0 = Inr \<lparr>finger = []\<rparr> \<and>
   wait_for_position (scripted_base []) \<lparr>request_mode = GRIPPER_POSITION\<rparr> [] =
     Some (Inr (), [Call_GetMeasuredGripperMovement \<lparr>request_mode = GRIPPER_POSITION\<rparr>])"
proof -
  let ?req = "\<lparr>request_mode = GRIPPER_POSITION\<rparr>"
  have first: "poll_reply (scripted_base []) ?req [] 0 = Inr \<lparr>finger = []\<rparr>"
    by (simp add: poll_reply_scripted)
  show ?thesis
    using first
      polling_ends_on_empty_finger_list [of 0 "scripted_base []" ?req "[]" "\<lparr>finger = []\<rparr>"]
    by simp
qed

text \<open>
  C7: the polling loop has no timeout and no bound on its iterations. On a stream of
  measurements (no poll raises), it terminates if and only if some measurement has an
  empty finger list or a first value strictly greater than 0.86; on a stream that never
  does either the loop has no result: it polls forever.
\<close>

theorem polling_terminates_iff:
  assumes "\<forall>n. \<exists>m. poll_reply base req tr n = Inr m"
  shows "wait_for_position base req tr \<noteq> None \<longleftrightarrow>
         (\<exists>n m. poll_reply base req tr n = Inr m \<and>
            (finger m = [] \<or> float_gt (finger_value (hd (finger m))) (lit (86 / 100))))"
proof -
  have "(\<exists>n. \<not> keeps_polling (poll_reply base req tr n)) \<longleftrightarrow>
        (\<exists>n m. poll_reply base req tr n = Inr m \<and>
            (finger m = [] \<or> float_gt (finger_value (hd (finger m))) (lit (86 / 100))))"
    (is "?L \<longleftrightarrow> ?R")
  proof
    assume ?L
    then obtain n where n: "\<not> keeps_polling (poll_reply base req tr n)" ..
    obtain m where m: "poll_reply base req tr n = Inr m"
      using assms by blast
    show ?R
      using n m by (auto simp add: keeps_polling_def)
  next
    assume ?R
    then obtain n m where m: "poll_reply base req tr n = Inr m"
      and stop: "finger m = [] \<or> float_gt (finger_value (hd (finger m))) (lit (86 / 100))"
      by blast
    have "\<not> keeps_polling (poll_reply base req tr n)"
      unfolding m keeps_polling_Inr using stop by blast
    then show ?L ..
  qed
  then show ?thesis
    using wait_for_position_terminates_iff [of base req tr] by (simp only:)
qed

text \<open>
  C7, two runs: the stream 0.5, 0.7, 0.86, 0.90 reaches 0.90, and the loop terminates;
  on a gripper that stays at 0.5 the loop never ends.
\<close>

theorem polling_terminates_iff_witness:
  "(\<forall>n. \<exists>m. poll_reply (scripted_base closing_stream) \<lparr>request_mode = GRIPPER_POSITION\<rparr> [] n = Inr m) \<and>
   poll_reply (scripted_base closing_stream) \<lparr>request_mode = GRIPPER_POSITION\<rparr> [] 3 =
     Inr (measured (lit (90 / 100))) \<and>
   float_gt (lit (90 / 100)) (lit (86 / 100)) \<and>
   wait_for_position (scripted_base closing_stream) \<lparr>request_mode = GRIPPER_POSITION\<rparr> [] \<noteq> None \<and>
   (\<forall>n. poll_reply (steady_base (lit (5 / 10))) \<lparr>request_mode = GRIPPER_POSITION\<rparr> [] n =
      Inr (measured (lit (5 / 10)))) \<and>
   \<not> float_gt (lit (5 / 10)) (lit (86 / 100)) \<and>
   wait_for_position (steady_base (lit (5 / 10))) \<lparr>request_mode = GRIPPER_POSITION\<rparr> [] = None"
proof -
  let ?base = "scripted_base closing_stream"
  let ?steady = "steady_base (lit (5 / 10))"
  let ?req = "\<lparr>request_mode = GRIPPER_POSITION\<rparr>"
  have total: "\<forall>n. \<exists>m. poll_reply ?base ?req [] n = Inr m"
    by (simp add: poll_reply_scripted)
  have last: "poll_reply ?base ?req [] 3 = Inr (measured (lit (90 / 100)))"
    by (simp add: closing_stream_polls lits)
  have above: "float_gt (lit (90 / 100)) (lit (86 / 100))"
    by (simp add: lits)
  have "\<exists>n m. poll_reply ?base ?req [] n = Inr m \<and>
      (finger m = [] \<or> float_gt (finger_value (hd (finger m))) (lit (86 / 100)))"
    using last above by (intro exI [of _ 3] exI [of _ "measured (lit (90 / 100))"])
      (simp add: measured_def)
  then have ends: "wait_for_position ?base ?req [] \<noteq> None"
    using polling_terminates_iff [OF total] by simp
  have steady: "\<forall>n. poll_reply ?steady ?req [] n = Inr (measured (lit (5 / 10)))"
    by (simp add: poll_reply_def steady_base_def)
  have below: "\<not> float_gt (lit (5 / 10)) (lit (86 / 100))"
    by (simp add: lits)
  have "\<not> (\<exists>n m. poll_reply ?steady ?req [] n = Inr m \<and>
      (finger m = [] \<or> float_gt (finger_value (hd (finger m))) (lit (86 / 100))))"
    using steady below by (auto simp add: measured_def)
  moreover have "\<forall>n. \<exists>m. poll_reply ?steady ?req [] n = Inr m"
    using steady by blast
  ultimately have forever: "wait_for_position ?steady ?req [] = None"
    using polling_terminates_iff [of ?steady ?req "[]"] by blast
  show ?thesis
    using total last above ends steady below forever by blast
qed

text \<open>
  C8: on every device whose calls do not raise, \<open>main\<close> runs its six steps in order,
  each from the trace the step before left: the move to the home position, the first
  Cartesian move to the tool pose shifted by (0.2, 0.1, -0.37), and the four Cartesian
  moves to the points of the rectangle, with a \<open>RefreshFeedback\<close> before the first,
  the second and the third step. It returns the exit code 0 if every one of the six steps
  returned true, and 1 otherwise.
\<close>

theorem main_exit_code:
  assumes "no_transport_error router"
  shows "\<exists>fb0 tr1 r_home tr2 fb1 tr3 r_first tr4 fb2 tr5 r1 tr6 r2 tr7 r3 tr8 r4 tr9.
     RefreshFeedback router tr = (Inr fb0, tr1) \<and>
     example_move_to_home_position router tr1 = (Inr r_home, tr2) \<and>
     RefreshFeedback router tr2 = (Inr fb1, tr3) \<and>
     example_cartesian_action_movement router router
       (float_add (tool_pose_x fb1) (lit (2 / 10)))
       (float_add (tool_pose_y fb1) (lit (1 / 10)))
       (float_sub (tool_pose_z fb1) (lit (37 / 100))) tr3 = (Inr r_first, tr4) \<and>
     RefreshFeedback router tr4 = (Inr fb2, tr5) \<and>
     example_cartesian_action_movement router router
       (float_add (tool_pose_x fb2) (lit (5 / 100))) (tool_pose_y fb2)
       (tool_pose_z fb2) tr5 = (Inr r1, tr6) \<and>
     example_cartesian_action_movement router router
       (float_add (tool_pose_x fb2) (lit (5 / 100)))
       (float_add (tool_pose_y fb2) (lit (5 / 100)))
       (tool_pose_z fb2) tr6 = (Inr r2, tr7) \<and>
     example_cartesian_action_movement router router
       (float_sub (tool_pose_x fb2) (lit (5 / 100)))
       (float_add (tool_pose_y fb2) (lit (5 / 100)))
       (tool_pose_z fb2) tr7 = (Inr r3, tr8) \<and>
     example_cartesian_action_movement router router
       (float_sub (tool_pose_x fb2) (lit (5 / 100)))
       (float_sub (tool_pose_y fb2) (lit (5 / 100)))
       (tool_pose_z fb2) tr8 = (Inr r4, tr9) \<and>
     main router tr =
       (Inr (if r_home \<and> r_first \<and> r1 \<and> r2 \<and> r3 \<and> r4 then 0 else 1), tr9)"
proof -
  obtain fb0 tr1 where f0: "RefreshFeedback router tr = (Inr fb0, tr1)"
    using refresh_total [OF assms] by blast
  obtain r_home tr2 where h: "example_move_to_home_position router tr1 = (Inr r_home, tr2)"
    using home_total [OF assms] by blast
  obtain fb1 tr3 where f1: "RefreshFeedback router tr2 = (Inr fb1, tr3)"
    using refresh_total [OF assms] by blast
  obtain r_first tr4 where c: "example_cartesian_action_movement router router
       (float_add (tool_pose_x fb1) (lit (2 / 10)))
       (float_add (tool_pose_y fb1) (lit (1 / 10)))
       (float_sub (tool_pose_z fb1) (lit (37 / 100))) tr3 = (Inr r_first, tr4)"
    using cartesian_total [OF assms assms] by blast
  obtain fb2 tr5 where f2: "RefreshFeedback router tr4 = (Inr fb2, tr5)"
    using refresh_total [OF assms] by blast
  obtain r1 tr6 where p1: "example_cartesian_action_movement router router
       (float_add (tool_pose_x fb2) (lit (5 / 100))) (tool_pose_y fb2)
       (tool_pose_z fb2) tr5 = (Inr r1, tr6)"
    using cartesian_total [OF assms assms] by blast
  obtain r2 tr7 where p2: "example_cartesian_action_movement router router
       (float_add (tool_pose_x fb2) (lit (5 / 100)))
       (float_add (tool_pose_y fb2) (lit (5 / 100)))
       (tool_pose_z fb2) tr6 = (Inr r2, tr7)"
    using cartesian_total [OF assms assms] by blast
  obtain r3 tr8 where p3: "example_cartesian_action_movement router router
       (float_sub (tool_pose_x fb2) (lit (5 / 100)))
       (float_add (tool_pose_y fb2) (lit (5 / 100)))
       (tool_pose_z fb2) tr7 = (Inr r3, tr8)"
    using cartesian_total [OF assms assms] by blast
  obtain r4 tr9 where p4: "example_cartesian_action_movement router router
       (float_sub (tool_pose_x fb2) (lit (5 / 100)))
       (float_sub (tool_pose_y fb2) (lit (5 / 100)))
       (tool_pose_z fb2) tr8 = (Inr r4, tr9)"
    using cartesian_total [OF assms assms] by blast
  note run = main_steps [OF f0 h f1 c f2 p1 p2 p3 p4]
  show ?thesis
    using f0 h f1 c f2 p1 p2 p3 p4 run by blast
qed

text \<open>
  C8, a run: on \<open>completing_device\<close> each of the six steps returns true and the exit
  code is 0.
\<close>

theorem main_exit_code_witness:
  "no_transport_error completing_device \<and>
   (\<exists>tr1 tr2 tr3 tr4 tr5 tr6 tr7 tr8 tr9.
     RefreshFeedback completing_device [] = (Inr zero_feedback, tr1) \<and>
     example_move_to_home_position completing_device tr1 = (Inr True, tr2) \<and>
     RefreshFeedback completing_device tr2 = (Inr zero_feedback, tr3) \<and>
     example_cartesian_action_movement completing_device completing_device
       (float_add (tool_pose_x zero_feedback) (lit (2 / 10)))
       (float_add (tool_pose_y zero_feedback) (lit (1 / 10)))
       (float_sub (tool_pose_z zero_feedback) (lit (37 / 100))) tr3 = (Inr True, tr4) \<and>
     RefreshFeedback completing_device tr4 = (Inr zero_feedback, tr5) \<and>
     example_cartesian_action_movement completing_device completing_device
       (float_add (tool_pose_x zero_feedback) (lit (5 / 100))) (tool_pose_y zero_feedback)
       (tool_pose_z zero_feedback) tr5 = (Inr True, tr6) \<and>
     example_cartesian_action_movement completing_device completing_device
       (float_add (tool_pose_x zero_feedback) (lit (5 / 100)))
       (float_add (tool_pose_y zero_feedback) (lit (5 / 100)))
       (tool_pose_z zero_feedback) tr6 = (Inr True, tr7) \<and>
     example_cartesian_action_movement completing_device completing_device
       (float_sub (tool_pose_x zero_feedback) (lit (5 / 100)))
       (float_add (tool_pose_y zero_feedback) (lit (5 / 100)))
       (tool_pose_z zero_feedback) tr7 = (Inr True, tr8) \<and>
     example_cartesian_action_movement completing_device completing_device
       (float_sub (tool_pose_x zero_feedback) (lit (5 / 100)))
       (float_sub (tool_pose_y zero_feedback) (lit (5 / 100)))
       (tool_pose_z zero_feedback) tr8 = (Inr True, tr9) \<and>
     main completing_device [] = (Inr 0, tr9))"
proof -
  have ok: "no_transport_error completing_device"
    by (simp add: completing_device_def no_transport_error_scripted)
  obtain fb0 tr1 r_home tr2 fb1 tr3 r_first tr4 fb2 tr5 r1 tr6 r2 tr7 r3 tr8 r4 tr9
    where f0: "RefreshFeedback completing_device [] = (Inr fb0, tr1)"
      and h: "example_move_to_home_position completing_device tr1 = (Inr r_home, tr2)"
      and f1: "RefreshFeedback completing_device tr2 = (Inr fb1, tr3)"
      and c: "example_cartesian_action_movement completing_device completing_device
         (float_add (tool_pose_x fb1) (lit (2 / 10)))
         (float_add (tool_pose_y fb1) (lit (1 / 10)))
         (float_sub (tool_pose_z fb1) (lit (37 / 100))) tr3 = (Inr r_first, tr4)"
      and f2: "RefreshFeedback completing_device tr4 = (Inr fb2, tr5)"
      and p1: "example_cartesian_action_movement completing_device completing_device
         (float_add (tool_pose_x fb2) (lit (5 / 100))) (tool_pose_y fb2)
         (tool_pose_z fb2) tr5 = (Inr r1, tr6)"
      and p2: "example_cartesian_action_movement completing_device completing_device
         (float_add (tool_pose_x fb2) (lit (5 / 100)))
         (float_add (tool_pose_y fb2) (lit (5 / 100)))
         (tool_pose_z fb2) tr6 = (Inr r2, tr7)"
      and p3: "example_cartesian_action_movement completing_device completing_device
         (float_sub (tool_pose_x fb2) (lit (5 / 100)))
         (float_add (tool_pose_y fb2) (lit (5 / 100)))
         (tool_pose_z fb2) tr7 = (Inr r3, tr8)"
      and p4: "example_cartesian_action_movement completing_device completing_device
         (float_sub (tool_pose_x fb2) (lit (5 / 100)))
         (float_sub (tool_pose_y fb2) (lit (5 / 100)))
         (tool_pose_z fb2) tr8 = (Inr r4, tr9)"
      and run: "main completing_device [] =
         (Inr (if r_home \<and> r_first \<and> r1 \<and> r2 \<and> r3 \<and> r4 then 0 else 1), tr9)"
    using main_exit_code [OF ok, of "[]"] by blast
  have fb: "fb0 = zero_feedback" "fb1 = zero_feedback" "fb2 = zero_feedback"
    using f0 f1 f2 by (simp_all add: completing_refresh)
  have completes: "r" if "example_cartesian_action_movement completing_device completing_device
      px py pz t = (Inr r, t')" for px py pz t r t'
    using that completing_cartesian [of px py pz t] by (metis fst_conv sum.inject(2))
  have "r_home"
    using h completing_home [of tr1] by (metis fst_conv sum.inject(2))
  then have r: "r_home" "r_first" "r1" "r2" "r3" "r4"
    using completes [OF c] completes [OF p1] completes [OF p2] completes [OF p3] completes [OF p4] by blast+
  have run0: "main completing_device [] = (Inr 0, tr9)"
    using run r by simp
  show ?thesis
    using ok f0 h f1 c f2 p1 p2 p3 p4 run0 unfolding fb using r
    by (simp only: eqTrueI [of r_home] eqTrueI [of r_first] eqTrueI [of r1] eqTrueI [of r2]
        eqTrueI [of r3] eqTrueI [of r4]) blast
qed

text \<open>
  C9: if the list that \<open>ReadAllActions\<close> returns has no action named Home,
  \<open>example_move_to_home_position\<close> returns false after its two first calls
  (\<open>SetServoingMode\<close>, \<open>ReadAllActions\<close>): it creates no event, does not subscribe and
  issues no action.
\<close>

theorem home_missing_returns_false:
  assumes "SetServoingMode_reply base (tr @ [Call_SetServoingMode SINGLE_LEVEL_SERVOING]) = Inr ()"
    and "ReadAllActions_reply base
           (tr @ [Call_SetServoingMode SINGLE_LEVEL_SERVOING, Call_ReadAllActions REACH_JOINT_ANGLES]) =
         Inr action_list"
    and "\<forall>action \<in> set action_list. stored_name action \<noteq> ''Home''"
  shows "example_move_to_home_position base tr =
         (Inr False,
          tr @ [Call_SetServoingMode SINGLE_LEVEL_SERVOING, Call_ReadAllActions REACH_JOINT_ANGLES])"
  using assms(3) home_missing_run [OF assms(1,2)] by (simp add: home_handle_None)

text \<open>
  C9, a run: a device that stores only an action named Retract.
\<close>

theorem home_missing_returns_false_witness:
  "SetServoingMode_reply homeless_device ([] @ [Call_SetServoingMode SINGLE_LEVEL_SERVOING]) = Inr () \<and>
   ReadAllActions_reply homeless_device
     ([] @ [Call_SetServoingMode SINGLE_LEVEL_SERVOING, Call_ReadAllActions REACH_JOINT_ANGLES]) =
     Inr [\<lparr>stored_name = ''Retract'', stored_handle = 1\<rparr>] \<and>
   stored_name \<lparr>stored_name = ''Retract'', stored_handle = 1\<rparr> \<noteq> ''Home'' \<and>
   example_move_to_home_position homeless_device [] =
     (Inr False, [Call_SetServoingMode SINGLE_LEVEL_SERVOING, Call_ReadAllActions REACH_JOINT_ANGLES])"
proof -
  have a: "SetServoingMode_reply homeless_device ([] @ [Call_SetServoingMode SINGLE_LEVEL_SERVOING]) = Inr ()"
    by (simp add: homeless_device_def scripted_device_def)
  have b: "ReadAllActions_reply homeless_device
     ([] @ [Call_SetServoingMode SINGLE_LEVEL_SERVOING, Call_ReadAllActions REACH_JOINT_ANGLES]) =
     Inr [\<lparr>stored_name = ''Retract'', stored_handle = 1\<rparr>]"
    by (simp add: homeless_device_def scripted_device_def)
  have c: "\<forall>action \<in> set [\<lparr>stored_name = ''Retract'', stored_handle = 1\<rparr>]. stored_name action \<noteq> ''Home''"
    by simp
  show ?thesis
    using a b home_missing_returns_false [OF a b c] by simp
qed

text \<open>
  C10: every inline action that \<open>example_cartesian_action_movement\<close> issues has the
  position given by the arguments \<open>pose_x\<close>, \<open>pose_y\<close>, \<open>pose_z\<close> and the three angles
  of the tool pose in the feedback that the function read when it was called.
\<close>

theorem cartesian_action_pose:
  assumes "example_cartesian_action_movement base base_cyclic pose_x pose_y pose_z tr = (r, tr')"
    and "RefreshFeedback_reply base_cyclic (tr @ [Call_RefreshFeedback]) = Inr feedback"
    and "Call_ExecuteAction action \<in> set (drop (length tr) tr')"
  shows "target_pose action =
         \<lparr>cp_x = pose_x, cp_y = pose_y, cp_z = pose_z,
          cp_theta_x = tool_pose_theta_x feedback,
          cp_theta_y = tool_pose_theta_y feedback,
          cp_theta_z = tool_pose_theta_z feedback\<rparr>"
  using assms
  by (auto simp add: example_cartesian_action_movement_def io_defs cartesian_action_def
      split: sum.splits)

text \<open>
  C10, a run: the move to (3, 4, 5) on \<open>completing_device\<close>, whose tool pose has the
  angles 90, 0 and 45.
\<close>

theorem cartesian_action_pose_witness:
  "example_cartesian_action_movement completing_device completing_device
     (Finite 3) (Finite 4) (Finite 5) [] =
     (Inr True,
      cartesian_calls (Finite 3) (Finite 4) (Finite 5) zero_feedback @
        [Call_wait 20 True, Call_Unsubscribe 7]) \<and>
   RefreshFeedback_reply completing_device ([] @ [Call_RefreshFeedback]) = Inr zero_feedback \<and>
   Call_ExecuteAction (cartesian_action (Finite 3) (Finite 4) (Finite 5) zero_feedback) \<in>
     set (drop (length [])
       (cartesian_calls (Finite 3) (Finite 4) (Finite 5) zero_feedback @
          [Call_wait 20 True, Call_Unsubscribe 7])) \<and>
   target_pose (cartesian_action (Finite 3) (Finite 4) (Finite 5) zero_feedback) =
     \<lparr>cp_x = Finite 3, cp_y = Finite 4, cp_z = Finite 5,
      cp_theta_x = Finite 90, cp_theta_y = Finite 0, cp_theta_z = Finite 45\<rparr>"
proof -
  have run: "example_cartesian_action_movement completing_device completing_device
     (Finite 3) (Finite 4) (Finite 5) [] =
     (Inr True,
      cartesian_calls (Finite 3) (Finite 4) (Finite 5) zero_feedback @
        [Call_wait 20 True, Call_Unsubscribe 7])"
    by (simp add: run_defs completing_device_def cartesian_calls_def check_for_end_or_abort_def)
  have fb: "RefreshFeedback_reply completing_device ([] @ [Call_RefreshFeedback]) = Inr zero_feedback"
    by (simp add: completing_replies)
  have issued: "Call_ExecuteAction (cartesian_action (Finite 3) (Finite 4) (Finite 5) zero_feedback) \<in>
     set (drop (length [])
       (cartesian_calls (Finite 3) (Finite 4) (Finite 5) zero_feedback @
          [Call_wait 20 True, Call_Unsubscribe 7]))"
    by (simp add: cartesian_calls_def)
  show ?thesis
    using run fb issued cartesian_action_pose [OF run fb issued]
    by (simp add: zero_feedback_def)
qed

end
